theory Spec2Isabelle
  imports Complex_Main
begin

section \<open>Tensors\<close>

text \<open>
  Every tensor handled by \<^verbatim>\<open>InvSRModel\<close> is a 4-D image batch (batch, channel, row,
  column). A tensor carries its four sizes and its entries as nested lists in that order.
  Entries are real numbers: rounding of the floating-point arithmetic is not modelled.
\<close>

record tensor =
  batch :: nat
  chans :: nat
  rows :: nat
  cols :: nat
  cells :: "real list list list list"

type_synonym dims = "int \<times> int \<times> int \<times> int"

definition wf_tensor :: "tensor \<Rightarrow> bool" where
  "wf_tensor t \<longleftrightarrow>
     length (cells t) = batch t \<and>
     (\<forall>smp \<in> set (cells t). length smp = chans t \<and>
        (\<forall>ch \<in> set smp. length ch = rows t \<and> (\<forall>r \<in> set ch. length r = cols t)))"

definition shape :: "tensor \<Rightarrow> dims" where
  "shape t = (int (batch t), int (chans t), int (rows t), int (cols t))"

text \<open>\<^verbatim>\<open>t[:, :k, :, :]\<close>\<close>

definition narrow_to :: "nat \<Rightarrow> tensor \<Rightarrow> tensor" where
  "narrow_to k t = t\<lparr>chans := min k (chans t), cells := map (take k) (cells t)\<rparr>"

text \<open>\<^verbatim>\<open>t[:, k:, :, :]\<close>\<close>

definition narrow_from :: "nat \<Rightarrow> tensor \<Rightarrow> tensor" where
  "narrow_from k t = t\<lparr>chans := chans t - k, cells := map (drop k) (cells t)\<rparr>"

text \<open>\<^verbatim>\<open>k * t\<close> for a number \<^verbatim>\<open>k\<close>\<close>

definition smul :: "real \<Rightarrow> tensor \<Rightarrow> tensor" where
  "smul k t = t\<lparr>cells := map (map (map (map (\<lambda>v. k * v)))) (cells t)\<rparr>"

datatype error =
    AttributeError | TypeError | KeyError | RuntimeError | NotImplementedError | ValueError
  | NetworkError

text \<open>
  \<^verbatim>\<open>torch.cat((a, b), dim=1)\<close>: the sizes of the two tensors must agree in every
  dimension but the channel one, otherwise torch raises \<^verbatim>\<open>RuntimeError\<close>.
\<close>

definition torch_cat :: "tensor \<Rightarrow> tensor \<Rightarrow> error + tensor" where
  "torch_cat a b =
     (if batch a = batch b \<and> rows a = rows b \<and> cols a = cols b
      then Inr (a\<lparr>chans := chans a + chans b,
                   cells := map (\<lambda>(x, y). x @ y) (zip (cells a) (cells b))\<rparr>)
      else Inl RuntimeError)"

text \<open>
  \<^verbatim>\<open>torch.randn\<close> fills a tensor of the requested sizes with standard-normal samples
  from the generator. The generator is the sequence \<open>src\<close> of the samples it gives; \<open>k\<close>
  is the number of samples consumed so far.
\<close>

definition randn :: "(nat \<Rightarrow> real) \<Rightarrow> nat \<Rightarrow> nat \<Rightarrow> nat \<Rightarrow> nat \<Rightarrow> nat \<Rightarrow> tensor" where
  "randn src k n c h w =
     \<lparr>batch = n, chans = c, rows = h, cols = w,
      cells = map (\<lambda>i. map (\<lambda>j. map (\<lambda>y. map (\<lambda>x. src (k + ((i * c + j) * h + y) * w + x))
                 [0..<w]) [0..<h]) [0..<c]) [0..<n]\<rparr>"

text \<open>
  \<^verbatim>\<open>torch.sum(torch.norm(t.reshape([t.shape[0], -1]), p=2, dim=1))\<close>: the sum over the
  batch of the L2 norm of all entries of a sample. The reshape raises on an empty batch
  (the size \<^verbatim>\<open>-1\<close> cannot be inferred).
\<close>

definition sample_norm :: "real list list list \<Rightarrow> real" where
  "sample_norm smp = sqrt (sum_list (map (\<lambda>v. v * v) (concat (concat smp))))"

definition sum_norms :: "tensor \<Rightarrow> error + real" where
  "sum_norms t =
     (if batch t = 0 then Inl RuntimeError
      else Inr (sum_list (map sample_norm (cells t))))"

section \<open>Options\<close>

text \<open>
  The option dictionaries answer \<^verbatim>\<open>None\<close> for a missing key. Entries the code tests
  before use are optional here; entries it uses unconditionally have their value's type.
\<close>

record train_opts =
  padding_x :: "int option"
  use_learned_y :: bool
  gradient_clipping :: "real option"
  lambda_fit_forw :: real
  lambda_mle_forw :: real
  lambda_rec_back :: real
  lambda_mle_back :: real
  pixel_criterion :: "string option"
  pixel_criterion_forw :: "string option"
  pixel_criterion_back :: "string option"
  weight_decay_G :: "real option"
  lr_G :: real
  beta1 :: real
  beta2 :: real
  lr_scheme :: "string option"
  lr_steps :: "int list"
  restarts :: "int list option"
  restart_weights :: "real list option"
  lr_gamma :: real
  clear_state :: "bool option"
  T_period :: "int list"
  eta_min :: real

record test_opts =
  noise_scale :: "real option"

record options =
  opt_dist :: bool
  opt_scale :: int
  opt_train :: "train_opts option"
  opt_test :: "test_opts option"
  pretrain_model_G :: "string option"
  strict_load :: bool

text \<open>Python truth value of an optional integer and of an optional string.\<close>

definition truthy_int :: "int option \<Rightarrow> bool" where
  "truthy_int v = (case v of None \<Rightarrow> False | Some n \<Rightarrow> n \<noteq> 0)"

definition truthy_str :: "string option \<Rightarrow> bool" where
  "truthy_str v = (case v of None \<Rightarrow> False | Some s \<Rightarrow> s \<noteq> [])"

section \<open>The model object\<close>

datatype 'n parallel = DataParallel 'n | DistributedDataParallel 'n

datatype optimizer = Adam "string list" real real real real

text \<open>
  \<^verbatim>\<open>torch.optim.Adam(params, lr=lr, weight_decay=wd, betas=(b1, b2))\<close>: the constructor
  raises \<^verbatim>\<open>ValueError\<close> on a negative learning rate, on a beta outside \<^verbatim>\<open>[0, 1)\<close>, on a
  negative weight decay and on an empty parameter list.
\<close>

definition torch_optim_Adam ::
  "string list \<Rightarrow> real \<Rightarrow> real \<Rightarrow> real \<Rightarrow> real \<Rightarrow> error + optimizer" where
  "torch_optim_Adam params lr wd b1 b2 =
     (if 0 \<le> lr \<and> 0 \<le> b1 \<and> b1 < 1 \<and> 0 \<le> b2 \<and> b2 < 1 \<and> 0 \<le> wd \<and> params \<noteq> []
      then Inr (Adam params lr wd b1 b2)
      else Inl ValueError)"

datatype scheduler =
    MultiStepLR_Restart optimizer "int list" "int list option" "real list option" real
      "bool option"
  | CosineAnnealingLR_Restart optimizer "int list" real "int list option" "real list option"

text \<open>
  Effects on objects owned by the framework, in the order they happen. A network call
  records the module called, \<^verbatim>\<open>rev\<close>, the module's mode, whether gradients are
  recorded, and the input.
\<close>

datatype 'n event =
    LogInfo
  | LoadNetwork string bool
  | SaveNetwork string string
  | ZeroGrad
  | Randn dims
  | NetCall "'n parallel" bool bool bool tensor
  | Backward real
  | ClipGradNorm real
  | OptimizerStep

record 'n model =
  opt :: options
  rank :: int
  is_train :: bool
  train_opt :: "train_opts option"
  test_opt :: "test_opts option"
  netG :: "'n parallel"
  training :: bool
  grad_enabled :: bool
  Reconstruction_forw :: "string option option"
  Reconstruction_back :: "string option option"
  optimizer_G :: "optimizer option"
  optimizers :: "optimizer list"
  schedulers :: "scheduler list"
  log_dict :: "unit option"
  var_L :: "tensor option"
  real_H :: "tensor option"
  padding_x_dim :: "int option"
  self_input :: "tensor option"
  self_output :: "tensor option"
  fake_H :: "tensor option"
  forw_L :: "tensor option"
  fake_H_forw :: "tensor option"
  rng :: nat
  events :: "'n event list"

text \<open>What \<^verbatim>\<open>BaseModel.__init__\<close> leaves in the object (its code is not in this file).\<close>

record base_model =
  base_is_train :: bool
  base_optimizers :: "optimizer list"
  base_schedulers :: "scheduler list"

text \<open>
  The parts outside this file: the network built by \<^verbatim>\<open>networks.define_G\<close> and what it
  computes (which may depend on everything done to it so far and on its mode, and may
  raise), its parameters, the distributed rank, the base class, the random generator and
  \<^verbatim>\<open>ReconstructionLoss\<close>.
\<close>

record 'n env =
  define_G :: "options \<Rightarrow> 'n"
  get_rank :: int
  BaseModel_init :: "options \<Rightarrow> base_model"
  named_parameters :: "'n parallel \<Rightarrow> (string \<times> bool) list"
  net_apply :: "'n parallel \<Rightarrow> 'n event list \<Rightarrow> bool \<Rightarrow> bool \<Rightarrow> tensor \<Rightarrow> tensor option"
  samples :: "nat \<Rightarrow> real"
  ReconstructionLoss :: "string option \<Rightarrow> tensor \<Rightarrow> tensor \<Rightarrow> real option"

section \<open>Statements that may raise\<close>

type_synonym ('n, 'a) prog = "'n model \<Rightarrow> (error + 'a) \<times> 'n model"

definition ret :: "'a \<Rightarrow> ('n, 'a) prog" where
  "ret x s = (Inr x, s)"

definition raise :: "error \<Rightarrow> ('n, 'a) prog" where
  "raise e s = (Inl e, s)"

definition bnd :: "('n, 'a) prog \<Rightarrow> ('a \<Rightarrow> ('n, 'b) prog) \<Rightarrow> ('n, 'b) prog" where
  "bnd m f s = (case m s of (Inl e, s') \<Rightarrow> (Inl e, s') | (Inr x, s') \<Rightarrow> f x s')"

definition reads :: "('n model \<Rightarrow> 'a) \<Rightarrow> ('n, 'a) prog" where
  "reads f s = (Inr (f s), s)"

definition modify :: "('n model \<Rightarrow> 'n model) \<Rightarrow> ('n, unit) prog" where
  "modify g s = (Inr (), g s)"

definition lift :: "error + 'a \<Rightarrow> ('n, 'a) prog" where
  "lift r s = (r, s)"

text \<open>Reading an attribute that was never assigned raises \<^verbatim>\<open>AttributeError\<close>.\<close>

definition attr :: "('n model \<Rightarrow> 'a option) \<Rightarrow> ('n, 'a) prog" where
  "attr f s = (case f s of None \<Rightarrow> (Inl AttributeError, s) | Some x \<Rightarrow> (Inr x, s))"

text \<open>\<^verbatim>\<open>self.train_opt[...]\<close>: subscripting \<^verbatim>\<open>None\<close> raises \<^verbatim>\<open>TypeError\<close>.\<close>

definition train_cfg :: "('n, train_opts) prog" where
  "train_cfg s = (case train_opt s of None \<Rightarrow> (Inl TypeError, s) | Some t \<Rightarrow> (Inr t, s))"

text \<open>\<^verbatim>\<open>with torch.no_grad():\<close> restores the previous setting on every exit.\<close>

definition no_grad :: "('n, 'a) prog \<Rightarrow> ('n, 'a) prog" where
  "no_grad m s =
     (case m (s\<lparr>grad_enabled := False\<rparr>) of
        (r, s') \<Rightarrow> (r, s'\<lparr>grad_enabled := grad_enabled s\<rparr>))"

definition emit :: "'n event \<Rightarrow> ('n, unit) prog" where
  "emit e = modify (\<lambda>s. s\<lparr>events := events s @ [e]\<rparr>)"

text \<open>\<^verbatim>\<open>self.netG(x, rev=rev)\<close>\<close>

definition call_net :: "'n env \<Rightarrow> bool \<Rightarrow> tensor \<Rightarrow> ('n, tensor) prog" where
  "call_net env rev_flag x s =
     (case net_apply env (netG s) (events s) (training s) rev_flag x of
        None \<Rightarrow> (Inl NetworkError, s)
      | Some out \<Rightarrow>
          (Inr out,
           s\<lparr>events := events s @
                [NetCall (netG s) rev_flag (training s) (grad_enabled s) x]\<rparr>))"

section \<open>The methods of \<^verbatim>\<open>InvSRModel\<close>\<close>

record batch_data =
  LQ :: tensor
  GT :: "tensor option"

definition feed_data :: "batch_data \<Rightarrow> bool \<Rightarrow> ('n, unit) prog" where
  "feed_data data need_GT =
     bnd (modify (\<lambda>s. s\<lparr>var_L := Some (LQ data)\<rparr>)) (\<lambda>_.
     if need_GT then
       (case GT data of
          None \<Rightarrow> raise KeyError
        | Some g \<Rightarrow> modify (\<lambda>s. s\<lparr>real_H := Some g\<rparr>))
     else ret ())"

definition noise_batch :: "'n env \<Rightarrow> dims \<Rightarrow> ('n, tensor) prog" where
  "noise_batch env d s =
     (case d of (n, c, h, w) \<Rightarrow>
        if n < 0 \<or> c < 0 \<or> h < 0 \<or> w < 0 then (Inl RuntimeError, s)
        else (Inr (randn (samples env) (rng s) (nat n) (nat c) (nat h) (nat w)),
              s\<lparr>rng := rng s + nat n * nat c * nat h * nat w,
                events := events s @ [Randn d]\<rparr>))"

definition loss_forward :: "'n env \<Rightarrow> tensor \<Rightarrow> tensor \<Rightarrow> ('n, real \<times> real) prog" where
  "loss_forward env out y =
     bnd train_cfg (\<lambda>t.
     bnd (attr Reconstruction_forw) (\<lambda>crit.
     bnd (lift (case ReconstructionLoss env crit (narrow_to 3 out) (narrow_to 3 y) of
                  None \<Rightarrow> Inl RuntimeError | Some v \<Rightarrow> Inr v)) (\<lambda>fit.
     let l_forw_fit = lambda_fit_forw t * fit in
     bnd (lift (sum_norms (narrow_from 3 out))) (\<lambda>nz.
     let l_forw_mle = lambda_mle_forw t * nz in
     ret (l_forw_fit, l_forw_mle)))))"

definition loss_backward :: "'n env \<Rightarrow> tensor \<Rightarrow> tensor \<Rightarrow> ('n, real \<times> real) prog" where
  "loss_backward env x y =
     bnd (call_net env True y) (\<lambda>x_samples.
     let x_samples_image = narrow_to 3 x_samples in
     bnd train_cfg (\<lambda>t.
     bnd (attr Reconstruction_back) (\<lambda>crit.
     bnd (lift (case ReconstructionLoss env crit x x_samples_image of
                  None \<Rightarrow> Inl RuntimeError | Some v \<Rightarrow> Inr v)) (\<lambda>rec.
     let l_back_rec = lambda_rec_back t * rec in
     if truthy_int (padding_x t) then
       bnd (lift (sum_norms (narrow_from 3 x_samples))) (\<lambda>nx.
       ret (l_back_rec, lambda_mle_back t * nx))
     else ret (l_back_rec, 0)))))"

text \<open>
  Lines 118 to 120 and 155 to 157: the ground truth followed by \<^verbatim>\<open>padding_x\<close> noise
  channels becomes \<^verbatim>\<open>self.input\<close>.
\<close>

definition pad_input :: "'n env \<Rightarrow> int \<Rightarrow> ('n, unit) prog" where
  "pad_input env p =
     bnd (modify (\<lambda>s. s\<lparr>padding_x_dim := Some p\<rparr>)) (\<lambda>_.
     bnd (attr real_H) (\<lambda>H.
     bnd (noise_batch env (int (batch H), p, int (rows H), int (cols H))) (\<lambda>z.
     bnd (lift (torch_cat H z)) (\<lambda>inp.
     modify (\<lambda>s. s\<lparr>self_input := Some inp\<rparr>)))))"

definition plain_input :: "('n, unit) prog" where
  "plain_input = bnd (attr real_H) (\<lambda>H. modify (\<lambda>s. s\<lparr>self_input := Some H\<rparr>))"

definition optimize_parameters :: "'n env \<Rightarrow> int \<Rightarrow> ('n, unit) prog" where
  "optimize_parameters env step =
     bnd (attr optimizer_G) (\<lambda>_.
     bnd (emit ZeroGrad) (\<lambda>_.
     bnd train_cfg (\<lambda>t.
     bnd (case padding_x t of
            Some p \<Rightarrow> if p \<noteq> 0 then pad_input env p else plain_input
          | None \<Rightarrow> plain_input) (\<lambda>_.
     bnd (attr self_input) (\<lambda>inp.
     bnd (call_net env False inp) (\<lambda>out.
     bnd (modify (\<lambda>s. s\<lparr>self_output := Some out\<rparr>)) (\<lambda>_.
     let zshape = shape (narrow_from 3 out) in
     bnd (attr var_L) (\<lambda>L.
     bnd (noise_batch env zshape) (\<lambda>z.
     bnd (lift (torch_cat L z)) (\<lambda>y.
     bnd (if use_learned_y t then
            bnd (noise_batch env zshape) (\<lambda>z'. lift (torch_cat (narrow_to 3 out) z'))
          else ret y) (\<lambda>yy.
     bnd (loss_forward env out y) (\<lambda>(l_forw_fit, l_forw_mle).
     bnd (attr real_H) (\<lambda>H.
     bnd (loss_backward env H yy) (\<lambda>(l_back_rec, l_back_mle).
     let loss = 0 + (l_forw_fit + l_back_rec + l_forw_mle + l_back_mle) in
     bnd (emit (Backward loss)) (\<lambda>_.
     bnd (case gradient_clipping t of
            Some g \<Rightarrow> if g \<noteq> 0 then emit (ClipGradNorm g) else ret ()
          | None \<Rightarrow> ret ()) (\<lambda>_.
     emit OptimizerStep))))))))))))))))"

text \<open>Lines 154 to 161 of \<^verbatim>\<open>test\<close>; the result is \<^verbatim>\<open>input_dim\<close>.\<close>

definition test_input :: "'n env \<Rightarrow> tensor \<Rightarrow> ('n, int) prog" where
  "test_input env L =
     bnd (reads train_opt) (\<lambda>cfg.
     case cfg of
       None \<Rightarrow> bnd plain_input (\<lambda>_. ret (int (chans L)))
     | Some t \<Rightarrow>
         (case padding_x t of
            None \<Rightarrow> bnd plain_input (\<lambda>_. ret (int (chans L)))
          | Some p \<Rightarrow>
              if p \<noteq> 0 then bnd (pad_input env p) (\<lambda>_. ret (p + int (chans L)))
              else bnd plain_input (\<lambda>_. ret (int (chans L)))))"

text \<open>Lines 165 to 168.\<close>

definition test_noise_scale :: "test_opts option \<Rightarrow> real" where
  "test_noise_scale cfg =
     (case cfg of
        None \<Rightarrow> 1
      | Some t \<Rightarrow> (case noise_scale t of None \<Rightarrow> 1 | Some v \<Rightarrow> if v \<noteq> 0 then v else 1))"

definition test :: "'n env \<Rightarrow> ('n, unit) prog" where
  "test env =
     bnd (attr var_L) (\<lambda>L.
     bnd (test_input env L) (\<lambda>input_dim.
     bnd (reads opt) (\<lambda>cfg.
     let zshape = (int (batch L), input_dim * (opt_scale cfg)\<^sup>2 - int (chans L),
                   int (rows L), int (cols L)) in
     bnd (reads test_opt) (\<lambda>tcfg.
     let noise_scale = test_noise_scale tcfg in
     bnd (noise_batch env zshape) (\<lambda>z.
     bnd (lift (torch_cat L (smul noise_scale z))) (\<lambda>y.
     bnd (modify (\<lambda>s. s\<lparr>training := False\<rparr>)) (\<lambda>_.
     bnd (no_grad
            (bnd (call_net env True y) (\<lambda>o1.
             bnd (modify (\<lambda>s. s\<lparr>fake_H := Some (narrow_to 3 o1)\<rparr>)) (\<lambda>_.
             bnd (attr self_input) (\<lambda>inp.
             bnd (call_net env False inp) (\<lambda>o2.
             modify (\<lambda>s. s\<lparr>forw_L := Some (narrow_to 3 o2)\<rparr>))))))) (\<lambda>_.
     bnd (attr forw_L) (\<lambda>fl.
     bnd (noise_batch env zshape) (\<lambda>z2.
     bnd (lift (torch_cat fl (smul noise_scale z2))) (\<lambda>y_forw.
     bnd (no_grad
            (bnd (call_net env True y_forw) (\<lambda>o3.
             modify (\<lambda>s. s\<lparr>fake_H_forw := Some (narrow_to 3 o3)\<rparr>)))) (\<lambda>_.
     modify (\<lambda>s. s\<lparr>training := True\<rparr>)))))))))))))"

definition print_network :: "('n, unit) prog" where
  "print_network =
     bnd (reads rank) (\<lambda>r.
     if r \<le> 0 then bnd (emit LogInfo) (\<lambda>_. emit LogInfo) else ret ())"

definition load :: "('n, unit) prog" where
  "load =
     bnd (reads opt) (\<lambda>cfg.
     case pretrain_model_G cfg of
       None \<Rightarrow> ret ()
     | Some load_path_G \<Rightarrow>
         bnd (emit LogInfo) (\<lambda>_. emit (LoadNetwork load_path_G (strict_load cfg))))"

definition save :: "string \<Rightarrow> ('n, unit) prog" where
  "save iter_label = emit (SaveNetwork ''G'' iter_label)"

text \<open>Lines 37 to 80 of the constructor, run when \<^verbatim>\<open>self.is_train\<close> holds.\<close>

definition train_setup :: "'n env \<Rightarrow> ('n, unit) prog" where
  "train_setup env =
     bnd (modify (\<lambda>s. s\<lparr>training := True\<rparr>)) (\<lambda>_.
     bnd train_cfg (\<lambda>t.
     bnd (if truthy_str (pixel_criterion t) then
            modify (\<lambda>s. s\<lparr>Reconstruction_forw := Some (pixel_criterion t),
                          Reconstruction_back := Some (pixel_criterion t)\<rparr>)
          else
            modify (\<lambda>s. s\<lparr>Reconstruction_forw := Some (pixel_criterion_forw t),
                          Reconstruction_back := Some (pixel_criterion_back t)\<rparr>)) (\<lambda>_.
     let wd_G = (case weight_decay_G t of
                   None \<Rightarrow> 0 | Some v \<Rightarrow> if v \<noteq> 0 then v else 0) in
     bnd (reads netG) (\<lambda>net.
     let optim_params = map fst (filter snd (named_parameters env net)) in
     bnd (lift (torch_optim_Adam optim_params (lr_G t) wd_G (beta1 t) (beta2 t))) (\<lambda>adam.
     bnd (modify (\<lambda>s. s\<lparr>optimizer_G := Some adam, optimizers := optimizers s @ [adam]\<rparr>)) (\<lambda>_.
     bnd (if lr_scheme t = Some ''MultiStepLR'' then
            modify (\<lambda>s. s\<lparr>schedulers := schedulers s @
              map (\<lambda>optimizer. MultiStepLR_Restart optimizer (lr_steps t) (restarts t)
                     (restart_weights t) (lr_gamma t) (clear_state t)) (optimizers s)\<rparr>)
          else if lr_scheme t = Some ''CosineAnnealingLR_Restart'' then
            modify (\<lambda>s. s\<lparr>schedulers := schedulers s @
              map (\<lambda>optimizer. CosineAnnealingLR_Restart optimizer (T_period t) (eta_min t)
                     (restarts t) (restart_weights t)) (optimizers s)\<rparr>)
          else raise NotImplementedError) (\<lambda>_.
     modify (\<lambda>s. s\<lparr>log_dict := Some ()\<rparr>))))))))"

text \<open>
  The object after lines 16 to 31: a freshly built module wrapper is in training mode,
  gradients are enabled, and no data attribute is assigned yet.
\<close>

definition fresh_model :: "'n env \<Rightarrow> options \<Rightarrow> 'n model" where
  "fresh_model env cfg =
     \<lparr>opt = cfg,
      rank = (if opt_dist cfg then get_rank env else - 1),
      is_train = base_is_train (BaseModel_init env cfg),
      train_opt = opt_train cfg,
      test_opt = opt_test cfg,
      netG = (if opt_dist cfg then DistributedDataParallel (define_G env cfg)
              else DataParallel (define_G env cfg)),
      training = True,
      grad_enabled = True,
      Reconstruction_forw = None,
      Reconstruction_back = None,
      optimizer_G = None,
      optimizers = base_optimizers (BaseModel_init env cfg),
      schedulers = base_schedulers (BaseModel_init env cfg),
      log_dict = None,
      var_L = None,
      real_H = None,
      padding_x_dim = None,
      self_input = None,
      self_output = None,
      fake_H = None,
      forw_L = None,
      fake_H_forw = None,
      rng = 0,
      events = []\<rparr>"

definition InvSRModel_init :: "'n env \<Rightarrow> options \<Rightarrow> error + 'n model" where
  "InvSRModel_init env cfg =
     (case bnd print_network (\<lambda>_.
           bnd load (\<lambda>_.
           bnd (reads is_train) (\<lambda>tr.
           if tr then train_setup env else ret ()))) (fresh_model env cfg) of
        (Inl e, _) \<Rightarrow> Inl e
      | (Inr _, s) \<Rightarrow> Inr s)"

section \<open>Calls from outside\<close>

text \<open>
  A caller invokes the methods one after another on the same object; an exception of one
  call leaves the object as it is at that moment.
\<close>

datatype call = FeedData batch_data bool | OptimizeParameters int | Test | Load | Save string

fun run :: "'n env \<Rightarrow> call \<Rightarrow> ('n, unit) prog" where
  "run env (FeedData d g) = feed_data d g"
| "run env (OptimizeParameters step) = optimize_parameters env step"
| "run env Test = test env"
| "run env Load = load"
| "run env (Save iter_label) = save iter_label"

definition run_all :: "'n env \<Rightarrow> call list \<Rightarrow> 'n model \<Rightarrow> 'n model" where
  "run_all env cs s = foldl (\<lambda>s c. snd (run env c s)) s cs"

text \<open>Every network call among the events is a call of the module \<open>n\<close>.\<close>

definition calls_on :: "'n parallel \<Rightarrow> 'n event list \<Rightarrow> bool" where
  "calls_on n es = list_all (\<lambda>e. case e of NetCall m _ _ _ _ \<Rightarrow> m = n | _ \<Rightarrow> True) es"

section \<open>A small configuration\<close>

text \<open>
  A network that returns its input in both directions, a generator whose samples are all
  1, a reconstruction loss that is always 0, and one-pixel images whose entries are all 1.
\<close>

definition ex_env :: "unit env" where
  "ex_env =
     \<lparr>define_G = (\<lambda>_. ()),
      get_rank = 0,
      BaseModel_init = (\<lambda>_. \<lparr>base_is_train = True, base_optimizers = [],
                                base_schedulers = []\<rparr>),
      named_parameters = (\<lambda>_. [(''weight'', True), (''frozen'', False)]),
      net_apply = (\<lambda>_ _ _ _ x. Some x),
      samples = (\<lambda>_. 1),
      ReconstructionLoss = (\<lambda>_ _ _. Some 0)\<rparr>"

definition ex_train :: train_opts where
  "ex_train =
     \<lparr>padding_x = None, use_learned_y = False, gradient_clipping = Some 10,
      lambda_fit_forw = 1, lambda_mle_forw = 1, lambda_rec_back = 1, lambda_mle_back = 1,
      pixel_criterion = None, pixel_criterion_forw = Some ''l2'',
      pixel_criterion_back = Some ''l1'', weight_decay_G = None, lr_G = 1, beta1 = 0,
      beta2 = 0, lr_scheme = Some ''MultiStepLR'', lr_steps = [100], restarts = None,
      restart_weights = None, lr_gamma = 1, clear_state = None, T_period = [],
      eta_min = 0\<rparr>"

definition ex_opt :: options where
  "ex_opt =
     \<lparr>opt_dist = False, opt_scale = 1, opt_train = Some ex_train, opt_test = None,
      pretrain_model_G = None, strict_load = True\<rparr>"

definition ones :: "nat \<Rightarrow> nat \<Rightarrow> tensor" where
  "ones n c = \<lparr>batch = n, chans = c, rows = 1, cols = 1,
               cells = replicate n (replicate c [[1]])\<rparr>"

definition ex_model :: "unit model" where
  "ex_model =
     (case InvSRModel_init ex_env ex_opt of
        Inr s \<Rightarrow> s
      | Inl _ \<Rightarrow> fresh_model ex_env ex_opt)"

definition ex_fed :: "unit model" where
  "ex_fed = snd (feed_data \<lparr>LQ = ones 1 3, GT = Some (ones 1 3)\<rparr> True ex_model)"

definition ex_opt_s2 :: options where
  "ex_opt_s2 = ex_opt\<lparr>opt_scale := 2\<rparr>"

definition ex_stale :: "unit model" where
  "ex_stale =
     snd (feed_data \<lparr>LQ = ones 1 3, GT = None\<rparr> False
       (snd (feed_data \<lparr>LQ = ones 2 3, GT = Some (ones 2 3)\<rparr> True
          (case InvSRModel_init ex_env ex_opt_s2 of
             Inr s \<Rightarrow> s
           | Inl _ \<Rightarrow> fresh_model ex_env ex_opt_s2))))"

definition ex_refed :: "unit model" where
  "ex_refed = snd (feed_data \<lparr>LQ = ones 1 3, GT = None\<rparr> False ex_fed)"

definition ex_opt_x2 :: options where
  "ex_opt_x2 = ex_opt\<lparr>opt_scale := 2, opt_test := Some \<lparr>noise_scale = Some 0\<rparr>\<rparr>"

definition ex_fed_x2 :: "unit model" where
  "ex_fed_x2 =
     snd (feed_data \<lparr>LQ = ones 1 1, GT = Some (ones 1 1)\<rparr> True
       (case InvSRModel_init ex_env ex_opt_x2 of
          Inr s \<Rightarrow> s
        | Inl _ \<Rightarrow> fresh_model ex_env ex_opt_x2))"

definition ex_opt_clip0 :: options where
  "ex_opt_clip0 = ex_opt\<lparr>opt_train := Some (ex_train\<lparr>gradient_clipping := Some 0\<rparr>)\<rparr>"

definition ex_fed_clip0 :: "unit model" where
  "ex_fed_clip0 =
     snd (feed_data \<lparr>LQ = ones 1 3, GT = Some (ones 1 3)\<rparr> True
       (case InvSRModel_init ex_env ex_opt_clip0 of
          Inr s \<Rightarrow> s
        | Inl _ \<Rightarrow> fresh_model ex_env ex_opt_clip0))"

definition ex_calls :: "call list" where
  "ex_calls =
     [FeedData \<lparr>LQ = ones 1 3, GT = Some (ones 1 3)\<rparr> True, OptimizeParameters 1, Test,
      Save ''latest'']"

text \<open>
  A second configuration, in which every part shows. The network works on well-formed
  tensors of \<open>c\<close> channels: its forward pass moves the first channel of every sample to
  the end and its reverse pass moves it back. The samples of the generator are 1, 2, 3
  and so on; the reconstruction loss is the sum of the absolute differences of two tensors
  of the same shape. There is one padding channel, the noise scale is 3 and the four loss
  weights are 2, 3, 5 and 7. An image has one pixel, given by its channel values.
\<close>

definition flat :: "tensor \<Rightarrow> real list" where
  "flat t = concat (concat (concat (cells t)))"

definition ex_rot_env :: "nat \<Rightarrow> unit env" where
  "ex_rot_env c =
     \<lparr>define_G = (\<lambda>_. ()),
      get_rank = 0,
      BaseModel_init = (\<lambda>_. \<lparr>base_is_train = True, base_optimizers = [],
                                base_schedulers = []\<rparr>),
      named_parameters = (\<lambda>_. [(''weight'', True)]),
      net_apply = (\<lambda>_ _ _ rev_flag x.
        if wf_tensor x \<and> chans x = c
        then Some (x\<lparr>cells := map (if rev_flag then rotate (c - 1) else rotate1) (cells x)\<rparr>)
        else None),
      samples = (\<lambda>k. real k + 1),
      ReconstructionLoss = (\<lambda>_ a b.
        if shape a = shape b
        then Some (sum_list (map (\<lambda>(u, v). \<bar>u - v\<bar>) (zip (flat a) (flat b))))
        else None)\<rparr>"

definition pixel :: "real list \<Rightarrow> tensor" where
  "pixel vs = \<lparr>batch = 1, chans = length vs, rows = 1, cols = 1,
               cells = [map (\<lambda>v. [[v]]) vs]\<rparr>"

definition ex_train_pad :: train_opts where
  "ex_train_pad =
     ex_train\<lparr>padding_x := Some 1, lambda_fit_forw := 2, lambda_mle_forw := 3,
              lambda_rec_back := 5, lambda_mle_back := 7\<rparr>"

definition ex_opt_pad :: options where
  "ex_opt_pad =
     ex_opt\<lparr>opt_train := Some ex_train_pad, opt_test := Some \<lparr>noise_scale = Some 3\<rparr>\<rparr>"

definition ex_fed_pad :: "unit model" where
  "ex_fed_pad =
     snd (feed_data \<lparr>LQ = pixel [4, 5, 6], GT = Some (pixel [7, 8, 9])\<rparr> True
       (case InvSRModel_init (ex_rot_env 4) ex_opt_pad of
          Inr s \<Rightarrow> s
        | Inl _ \<Rightarrow> fresh_model (ex_rot_env 4) ex_opt_pad))"

definition ex_opt_plain :: options where
  "ex_opt_plain = ex_opt\<lparr>opt_train := Some (ex_train_pad\<lparr>padding_x := None\<rparr>)\<rparr>"

definition ex_fed_plain :: "unit model" where
  "ex_fed_plain =
     snd (feed_data \<lparr>LQ = pixel [4, 5, 6], GT = Some (pixel [7, 8, 9])\<rparr> True
       (case InvSRModel_init (ex_rot_env 3) ex_opt_plain of
          Inr s \<Rightarrow> s
        | Inl _ \<Rightarrow> fresh_model (ex_rot_env 3) ex_opt_plain))"

section \<open>Assertions\<close>

text \<open>
  \<open>hoare P m Q\<close>: from a state with \<open>P\<close>, the statement \<open>m\<close> leaves a state with \<open>Q\<close>,
  whether it returns or raises.
\<close>

definition hoare :: "('n model \<Rightarrow> bool) \<Rightarrow> ('n, 'a) prog \<Rightarrow> ('n model \<Rightarrow> bool) \<Rightarrow> bool" where
  "hoare P m Q \<longleftrightarrow> (\<forall>s. P s \<longrightarrow> Q (snd (m s)))"

text \<open>Every network call among the events ran in eval mode with gradients off.\<close>

definition eval_calls :: "'n event list \<Rightarrow> bool" where
  "eval_calls es =
     list_all (\<lambda>e. case e of NetCall _ _ tr g _ \<Rightarrow> \<not> tr \<and> \<not> g | _ \<Rightarrow> True) es"

definition extends_eval :: "'n event list \<Rightarrow> 'n model \<Rightarrow> bool" where
  "extends_eval base s \<longleftrightarrow> (\<exists>es. events s = base @ es \<and> eval_calls es)"

definition net_inv :: "'n parallel \<Rightarrow> 'n model \<Rightarrow> bool" where
  "net_inv n s \<longleftrightarrow> netG s = n \<and> calls_on n (events s)"


section \<open>Reasoning about statements\<close>

lemmas prog_defs = ret_def raise_def bnd_def reads_def modify_def lift_def attr_def
  train_cfg_def emit_def

lemmas model_defs = InvSRModel_init_def fresh_model_def print_network_def load_def save_def
  train_setup_def feed_data_def noise_batch_def loss_forward_def loss_backward_def
  pad_input_def plain_input_def optimize_parameters_def test_input_def test_noise_scale_def
  test_def call_net_def no_grad_def torch_cat_def randn_def narrow_to_def narrow_from_def
  smul_def shape_def sum_norms_def sample_norm_def truthy_int_def truthy_str_def
  torch_optim_Adam_def

lemmas ex_defs = ex_fed_def ex_model_def ex_env_def ex_opt_def ex_train_def ones_def
  ex_stale_def ex_refed_def ex_opt_x2_def ex_fed_x2_def ex_calls_def
  ex_opt_clip0_def ex_fed_clip0_def ex_opt_s2_def

lemmas ex_rot_defs = ex_rot_env_def pixel_def ex_train_pad_def ex_opt_pad_def ex_fed_pad_def
  ex_opt_plain_def ex_fed_plain_def flat_def wf_tensor_def ex_opt_def ex_train_def

text \<open>A statement returns normally exactly when each of its parts does.\<close>

lemma bnd_Inr:
  "bnd m f s = (Inr r, s') \<longleftrightarrow> (\<exists>x s1. m s = (Inr x, s1) \<and> f x s1 = (Inr r, s'))"
  by (auto simp: bnd_def split: prod.splits sum.splits)

lemma ret_Inr: "ret x s = (Inr y, s') \<longleftrightarrow> y = x \<and> s' = s"
  by (auto simp: ret_def)

lemma raise_Inr: "raise e s = (Inr y, s') \<longleftrightarrow> False"
  by (simp add: raise_def)

lemma reads_Inr: "reads f s = (Inr y, s') \<longleftrightarrow> y = f s \<and> s' = s"
  by (auto simp: reads_def)

lemma modify_Inr: "modify g s = (Inr u, s') \<longleftrightarrow> s' = g s"
  by (auto simp: modify_def)

lemma emit_Inr: "emit e s = (Inr u, s') \<longleftrightarrow> s' = s\<lparr>events := events s @ [e]\<rparr>"
  by (auto simp: emit_def modify_def)

lemma lift_Inr: "lift r s = (Inr y, s') \<longleftrightarrow> r = Inr y \<and> s' = s"
  by (auto simp: lift_def)

lemma attr_Inr: "attr f s = (Inr y, s') \<longleftrightarrow> f s = Some y \<and> s' = s"
  by (auto simp: attr_def split: option.splits)

lemma train_cfg_Inr: "train_cfg s = (Inr t, s') \<longleftrightarrow> train_opt s = Some t \<and> s' = s"
  by (auto simp: train_cfg_def split: option.splits)

lemma no_grad_Inr:
  "no_grad m s = (Inr y, s') \<longleftrightarrow>
     (\<exists>s1. m (s\<lparr>grad_enabled := False\<rparr>) = (Inr y, s1) \<and>
           s' = s1\<lparr>grad_enabled := grad_enabled s\<rparr>)"
  by (auto simp: no_grad_def split: prod.splits)

lemma call_net_Inr:
  "call_net env rv x s = (Inr out, s') \<longleftrightarrow>
     net_apply env (netG s) (events s) (training s) rv x = Some out \<and>
     s' = s\<lparr>events := events s @ [NetCall (netG s) rv (training s) (grad_enabled s) x]\<rparr>"
  by (auto simp: call_net_def split: option.splits)

lemma noise_batch_Inr:
  "noise_batch env (n, c, h, w) s = (Inr z, s') \<longleftrightarrow>
     0 \<le> n \<and> 0 \<le> c \<and> 0 \<le> h \<and> 0 \<le> w \<and>
     z = randn (samples env) (rng s) (nat n) (nat c) (nat h) (nat w) \<and>
     s' = s\<lparr>rng := rng s + nat n * nat c * nat h * nat w,
            events := events s @ [Randn (n, c, h, w)]\<rparr>"
  by (auto simp: noise_batch_def)

lemmas Inr_simps = bnd_Inr ret_Inr raise_Inr reads_Inr modify_Inr emit_Inr lift_Inr attr_Inr
  train_cfg_Inr no_grad_Inr call_net_Inr noise_batch_Inr

lemma pair_fst_snd: "fst p = a \<Longrightarrow> p = (a, snd p)"
  by (cases p) simp

text \<open>Building the input touches neither the configuration nor the network.\<close>

lemma test_input_frame:
  assumes "test_input env L s = (r, s1)"
  shows "opt s1 = opt s \<and> test_opt s1 = test_opt s \<and> train_opt s1 = train_opt s \<and>
         netG s1 = netG s \<and> training s1 = training s \<and> grad_enabled s1 = grad_enabled s \<and>
         var_L s1 = var_L s \<and> real_H s1 = real_H s"
  using assms
  by (auto simp: test_input_def pad_input_def plain_input_def noise_batch_def torch_cat_def
      prog_defs split: option.splits if_splits sum.splits prod.splits)

lemma ex_test_ok: "fst (test ex_env ex_fed) = Inr ()"
  by (simp add: ex_defs model_defs prog_defs Let_def)

lemma test_input_Inr:
  assumes "test_input env L s = (Inr d, s1)"
  shows "\<exists>H. real_H s = Some H \<and>
     d = int (chans L) +
         (case train_opt s of None \<Rightarrow> 0
          | Some t \<Rightarrow> (case padding_x t of None \<Rightarrow> 0 | Some p \<Rightarrow> p)) \<and>
     (\<exists>inp es. self_input s1 = Some inp \<and> events s1 = events s @ es \<and>
        (es = [] \<and> inp = H \<or>
         (\<exists>p. es = [Randn (int (batch H), p, int (rows H), int (cols H))] \<and> 0 \<le> p \<and>
            torch_cat H (randn (samples env) (rng s) (batch H) (nat p) (rows H) (cols H))
              = Inr inp)))"
  using assms
  by (auto simp: test_input_def pad_input_def plain_input_def Inr_simps
      split: option.splits if_splits)

text \<open>What a \<^verbatim>\<open>test()\<close> call that returns has done.\<close>

lemma test_Inr:
  assumes "test env s = (Inr (), s')"
  shows "\<exists>L d s1 c z y o1 inp o2 z2 yf o3.
     var_L s = Some L \<and> test_input env L s = (Inr d, s1) \<and>
     c = d * (opt_scale (opt s))\<^sup>2 - int (chans L) \<and> 0 \<le> c \<and>
     z = randn (samples env) (rng s1) (batch L) (nat c) (rows L) (cols L) \<and>
     torch_cat L (smul (test_noise_scale (test_opt s)) z) = Inr y \<and>
     self_input s1 = Some inp \<and>
     z2 = randn (samples env) (rng s1 + batch L * nat c * rows L * cols L)
            (batch L) (nat c) (rows L) (cols L) \<and>
     torch_cat (narrow_to 3 o2) (smul (test_noise_scale (test_opt s)) z2) = Inr yf \<and>
     events s' = events s1 @
       [Randn (int (batch L), c, int (rows L), int (cols L)),
        NetCall (netG s) True False False y,
        NetCall (netG s) False False False inp,
        Randn (int (batch L), c, int (rows L), int (cols L)),
        NetCall (netG s) True False False yf] \<and>
     training s' \<and> grad_enabled s' = grad_enabled s \<and>
     fake_H s' = Some (narrow_to 3 o1) \<and> forw_L s' = Some (narrow_to 3 o2) \<and>
     fake_H_forw s' = Some (narrow_to 3 o3)"
  using assms
  apply (simp add: test_def Let_def Inr_simps)
  apply (elim exE conjE)
  apply (frule test_input_frame)
  apply auto
  done

lemma chans_randn: "chans (randn src k n c h w) = c"
  by (simp add: randn_def)

lemma chans_smul: "chans (smul k t) = chans t"
  by (simp add: smul_def)

lemma chans_cat: "torch_cat a b = Inr y \<Longrightarrow> chans y = chans a + chans b"
  by (auto simp: torch_cat_def split: if_splits)

text \<open>The entries of \<^verbatim>\<open>torch.cat((a, k * z), dim=1)\<close> and of \<^verbatim>\<open>t[:, :k, :, :]\<close>.\<close>

lemma cells_cat_smul:
  assumes "torch_cat a (smul k z) = Inr y"
  shows "chans y = chans a + chans z \<and>
         cells y = map (\<lambda>(u, v). u @ map (map (map (\<lambda>x. k * x))) v) (zip (cells a) (cells z))"
  using assms
  by (auto simp: torch_cat_def smul_def zip_map2 split_def split: if_splits)

lemma cells_narrow_to: "cells (narrow_to k t) = map (take k) (cells t)"
  by (simp add: narrow_to_def)

subsection \<open>Rules for assertions\<close>

lemma hoare_bnd:
  "hoare R m R \<Longrightarrow> (\<And>x. hoare R (f x) Q) \<Longrightarrow> (\<And>s. R s \<Longrightarrow> Q s) \<Longrightarrow> hoare R (bnd m f) Q"
  by (auto simp: hoare_def bnd_def split: prod.splits sum.splits)

lemma hoare_ret: "(\<And>s. P s \<Longrightarrow> Q s) \<Longrightarrow> hoare P (ret x) Q"
  by (simp add: hoare_def ret_def)

lemma hoare_raise: "(\<And>s. P s \<Longrightarrow> Q s) \<Longrightarrow> hoare P (raise e) Q"
  by (simp add: hoare_def raise_def)

lemma hoare_reads: "(\<And>s. P s \<Longrightarrow> Q s) \<Longrightarrow> hoare P (reads f) Q"
  by (simp add: hoare_def reads_def)

lemma hoare_lift: "(\<And>s. P s \<Longrightarrow> Q s) \<Longrightarrow> hoare P (lift r) Q"
  by (simp add: hoare_def lift_def)

lemma hoare_attr: "(\<And>s. P s \<Longrightarrow> Q s) \<Longrightarrow> hoare P (attr f) Q"
  by (simp add: hoare_def attr_def split: option.splits)

lemma hoare_train_cfg: "(\<And>s. P s \<Longrightarrow> Q s) \<Longrightarrow> hoare P train_cfg Q"
  by (simp add: hoare_def train_cfg_def split: option.splits)

lemma hoare_modify: "(\<And>s. P s \<Longrightarrow> Q (g s)) \<Longrightarrow> hoare P (modify g) Q"
  by (simp add: hoare_def modify_def)

lemma hoare_emit:
  "(\<And>s. P s \<Longrightarrow> Q (s\<lparr>events := events s @ [e]\<rparr>)) \<Longrightarrow> hoare P (emit e) Q"
  by (simp add: hoare_def modify_def emit_def)

lemma hoare_if: "hoare P a Q \<Longrightarrow> hoare P b Q \<Longrightarrow> hoare P (if c then a else b) Q"
  by simp

lemma hoare_option:
  "hoare P a Q \<Longrightarrow> (\<And>x. hoare P (b x) Q) \<Longrightarrow>
   hoare P (case v of None \<Rightarrow> a | Some x \<Rightarrow> b x) Q"
  by (cases v) simp_all

lemma hoare_prod: "(\<And>a b. hoare P (f a b) Q) \<Longrightarrow> hoare P (case p of (a, b) \<Rightarrow> f a b) Q"
  by (cases p) simp

lemma hoare_no_grad:
  "(\<And>s. P s \<Longrightarrow> R (s\<lparr>grad_enabled := False\<rparr>)) \<Longrightarrow> hoare R m R \<Longrightarrow>
   (\<And>s b. R s \<Longrightarrow> Q (s\<lparr>grad_enabled := b\<rparr>)) \<Longrightarrow> hoare P (no_grad m) Q"
  by (auto simp: hoare_def no_grad_def split: prod.splits) (metis snd_conv)

lemma hoare_no_grad_same:
  "(\<And>s b. P (s\<lparr>grad_enabled := b\<rparr>) = P s) \<Longrightarrow> hoare P m P \<Longrightarrow> hoare P (no_grad m) P"
  by (rule hoare_no_grad [where R = P]) simp_all

lemma hoare_call_net:
  "(\<And>s. P s \<Longrightarrow> Q s) \<Longrightarrow>
   (\<And>s. P s \<Longrightarrow>
      Q (s\<lparr>events := events s @ [NetCall (netG s) rv (training s) (grad_enabled s) x]\<rparr>)) \<Longrightarrow>
   hoare P (call_net env rv x) Q"
  by (simp add: hoare_def call_net_def split: option.splits)

lemma hoare_noise_batch:
  "(\<And>s. P s \<Longrightarrow> Q s) \<Longrightarrow>
   (\<And>s k. P s \<Longrightarrow> Q (s\<lparr>rng := k, events := events s @ [Randn d]\<rparr>)) \<Longrightarrow>
   hoare P (noise_batch env d) Q"
  by (auto simp: hoare_def noise_batch_def split: prod.splits)

lemma hoare_modify_then:
  "(\<And>s. P s \<Longrightarrow> R (g s)) \<Longrightarrow> hoare R m Q \<Longrightarrow> hoare P (bnd (modify g) (\<lambda>_. m)) Q"
  by (simp add: hoare_def bnd_def modify_def)

lemmas hoare_intros = hoare_bnd hoare_ret hoare_raise hoare_reads hoare_lift hoare_attr
  hoare_train_cfg hoare_modify hoare_emit hoare_if hoare_option hoare_prod hoare_call_net
  hoare_noise_batch

lemma hoare_run_all:
  assumes "\<And>c. c \<in> set cs \<Longrightarrow> hoare P (run env c) P" and "P s"
  shows "P (run_all env cs s)"
  using assms
proof (induction cs arbitrary: s)
  case Nil
  then show ?case by (simp add: run_all_def)
next
  case (Cons c cs)
  from Cons.prems have "P (snd (run env c s))"
    by (simp add: hoare_def)
  with Cons.IH [of "snd (run env c s)"] Cons.prems(1) show ?case
    by (simp add: run_all_def)
qed

lemma ex_init: "InvSRModel_init ex_env ex_opt = Inr ex_model"
  by (simp add: ex_defs model_defs prog_defs Let_def)

lemma ex_x2_ok: "fst (test ex_env ex_fed_x2) = Inr ()"
  by (simp add: ex_defs model_defs prog_defs Let_def)

lemma ex_x2_var: "var_L ex_fed_x2 = Some (ones 1 1)"
  by (simp add: ex_defs model_defs prog_defs Let_def)

text \<open>The second configuration: what \<^verbatim>\<open>test()\<close> does there.\<close>

lemma ex_pad_test:
  "fst (test (ex_rot_env 4) ex_fed_pad) = Inr () \<and>
   var_L ex_fed_pad = Some (pixel [4, 5, 6]) \<and>
   real_H ex_fed_pad = Some (pixel [7, 8, 9]) \<and>
   test_opt ex_fed_pad = Some \<lparr>noise_scale = Some 3\<rparr> \<and>
   events (snd (test (ex_rot_env 4) ex_fed_pad)) =
     [LogInfo, LogInfo, Randn (1, 1, 1, 1), Randn (1, 1, 1, 1),
      NetCall (DataParallel ()) True False False (pixel [4, 5, 6, 6]),
      NetCall (DataParallel ()) False False False (pixel [7, 8, 9, 1]),
      Randn (1, 1, 1, 1),
      NetCall (DataParallel ()) True False False (pixel [8, 9, 1, 9])] \<and>
   fake_H (snd (test (ex_rot_env 4) ex_fed_pad)) = Some (pixel [6, 4, 5]) \<and>
   forw_L (snd (test (ex_rot_env 4) ex_fed_pad)) = Some (pixel [8, 9, 1]) \<and>
   fake_H_forw (snd (test (ex_rot_env 4) ex_fed_pad)) = Some (pixel [9, 8, 9])"
  by (simp add: ex_rot_defs model_defs prog_defs Let_def eval_nat_numeral)

lemma ex_pad_noise:
  "randn (samples (ex_rot_env 4)) 1 1 1 1 1 = pixel [2] \<and>
   randn (samples (ex_rot_env 4)) 2 1 1 1 1 = pixel [3] \<and>
   smul 3 (pixel [2]) = pixel [6] \<and>
   torch_cat (pixel [4, 5, 6]) (pixel [6]) = Inr (pixel [4, 5, 6, 6]) \<and>
   net_apply (ex_rot_env 4) (DataParallel ()) [] False True (pixel [4, 5, 6, 6])
     = Some (pixel [6, 4, 5, 6]) \<and>
   narrow_to 3 (pixel [6, 4, 5, 6]) = pixel [6, 4, 5]"
  by (simp add: ex_rot_defs model_defs prog_defs Let_def eval_nat_numeral)

lemma ex_pad_test_run:
  "test (ex_rot_env 4) ex_fed_pad = (Inr (), snd (test (ex_rot_env 4) ex_fed_pad))"
  by (rule pair_fst_snd) (rule ex_pad_test [THEN conjunct1])

section \<open>Reconstruction at test time\<close>

text \<open>
  C1. When \<^verbatim>\<open>test()\<close> returns, \<^verbatim>\<open>fake_H\<close> is the first three channels of what the network
  answers in the reverse direction to \<^verbatim>\<open>y\<close>, and \<^verbatim>\<open>y\<close> is the low-resolution input
  \<^verbatim>\<open>var_L\<close> followed, along the channel dimension, by \<^verbatim>\<open>noise_scale\<close> times a
  \<^verbatim>\<open>noise_batch\<close> sample of the shape \<^verbatim>\<open>zshape\<close> computed from \<^verbatim>\<open>var_L\<close>, \<^verbatim>\<open>input_dim\<close> and
  the scale: every sample of \<^verbatim>\<open>y\<close> is the channels of \<^verbatim>\<open>var_L\<close> followed by the channels of
  the noise with every entry multiplied by \<^verbatim>\<open>noise_scale\<close>, the local variable that lines
  165 to 168 assign.
\<close>

theorem test_reconstructs_from_noise:
  assumes "test env s = (Inr (), s')"
  shows "\<exists>L input_dim s1 z s2 y out.
     var_L s = Some L \<and>
     test_input env L s = (Inr input_dim, s1) \<and>
     noise_batch env (int (batch L), input_dim * (opt_scale (opt s))\<^sup>2 - int (chans L),
                      int (rows L), int (cols L)) s1 = (Inr z, s2) \<and>
     torch_cat L (smul (test_noise_scale (test_opt s)) z) = Inr y \<and>
     chans y = chans L + chans z \<and>
     cells y = map (\<lambda>(u, v). u @ map (map (map (\<lambda>x. test_noise_scale (test_opt s) * x))) v)
                 (zip (cells L) (cells z)) \<and>
     net_apply env (netG s) (events s2) False True y = Some out \<and>
     fake_H s' = Some (narrow_to 3 out) \<and>
     cells (narrow_to 3 out) = map (take 3) (cells out)"
proof -
  from assms have "\<exists>L input_dim s1 z s2 y out.
     var_L s = Some L \<and>
     test_input env L s = (Inr input_dim, s1) \<and>
     noise_batch env (int (batch L), input_dim * (opt_scale (opt s))\<^sup>2 - int (chans L),
                      int (rows L), int (cols L)) s1 = (Inr z, s2) \<and>
     torch_cat L (smul (test_noise_scale (test_opt s)) z) = Inr y \<and>
     net_apply env (netG s) (events s2) False True y = Some out \<and>
     fake_H s' = Some (narrow_to 3 out)"
    apply (simp add: test_def Let_def Inr_simps)
    apply (elim exE conjE)
    apply (frule test_input_frame)
    apply auto
    done
  then obtain L input_dim s1 z s2 y out where
    a: "var_L s = Some L"
       "test_input env L s = (Inr input_dim, s1)"
       "noise_batch env (int (batch L), input_dim * (opt_scale (opt s))\<^sup>2 - int (chans L),
                      int (rows L), int (cols L)) s1 = (Inr z, s2)"
       "torch_cat L (smul (test_noise_scale (test_opt s)) z) = Inr y"
       "net_apply env (netG s) (events s2) False True y = Some out"
       "fake_H s' = Some (narrow_to 3 out)"
    by (elim exE conjE) (rule that)
  note c = cells_cat_smul [OF a(4)]
  show ?thesis
    apply (intro exI conjI)
            apply (rule a(1))
           apply (rule a(2))
          apply (rule a(3))
         apply (rule a(4))
        apply (rule c [THEN conjunct1])
       apply (rule c [THEN conjunct2])
      apply (rule a(5))
     apply (rule a(6))
    apply (rule cells_narrow_to)
    done
qed

text \<open>
  In the second configuration the noise has one channel and \<^verbatim>\<open>noise_scale\<close> is 3: the
  sample 2 enters \<^verbatim>\<open>y\<close> as 6 behind the channels 4, 5, 6 of \<^verbatim>\<open>var_L\<close>, the reverse pass
  moves it to the front, and \<^verbatim>\<open>fake_H\<close> is 6, 4, 5.
\<close>

theorem test_reconstructs_from_noise_witness:
  "test (ex_rot_env 4) ex_fed_pad = (Inr (), snd (test (ex_rot_env 4) ex_fed_pad)) \<and>
   (\<exists>L input_dim s1 z s2 y out.
     var_L ex_fed_pad = Some L \<and>
     test_input (ex_rot_env 4) L ex_fed_pad = (Inr input_dim, s1) \<and>
     noise_batch (ex_rot_env 4)
       (int (batch L), input_dim * (opt_scale (opt ex_fed_pad))\<^sup>2 - int (chans L),
        int (rows L), int (cols L)) s1 = (Inr z, s2) \<and>
     torch_cat L (smul (test_noise_scale (test_opt ex_fed_pad)) z) = Inr y \<and>
     chans y = chans L + chans z \<and>
     cells y =
       map (\<lambda>(u, v). u @ map (map (map (\<lambda>x. test_noise_scale (test_opt ex_fed_pad) * x))) v)
         (zip (cells L) (cells z)) \<and>
     net_apply (ex_rot_env 4) (netG ex_fed_pad) (events s2) False True y = Some out \<and>
     fake_H (snd (test (ex_rot_env 4) ex_fed_pad)) = Some (narrow_to 3 out) \<and>
     cells (narrow_to 3 out) = map (take 3) (cells out)) \<and>
   var_L ex_fed_pad = Some (pixel [4, 5, 6]) \<and>
   test_opt ex_fed_pad = Some \<lparr>noise_scale = Some 3\<rparr> \<and>
   randn (samples (ex_rot_env 4)) 1 1 1 1 1 = pixel [2] \<and>
   smul 3 (pixel [2]) = pixel [6] \<and>
   torch_cat (pixel [4, 5, 6]) (pixel [6]) = Inr (pixel [4, 5, 6, 6]) \<and>
   net_apply (ex_rot_env 4) (DataParallel ()) [] False True (pixel [4, 5, 6, 6])
     = Some (pixel [6, 4, 5, 6]) \<and>
   NetCall (DataParallel ()) True False False (pixel [4, 5, 6, 6])
     \<in> set (events (snd (test (ex_rot_env 4) ex_fed_pad))) \<and>
   fake_H (snd (test (ex_rot_env 4) ex_fed_pad)) = Some (pixel [6, 4, 5])"
proof -
  note th = test_reconstructs_from_noise [OF ex_pad_test_run]
  have ev: "NetCall (DataParallel ()) True False False (pixel [4, 5, 6, 6])
     \<in> set (events (snd (test (ex_rot_env 4) ex_fed_pad)))"
    by (simp add: ex_pad_test)
  from th ex_pad_test_run ex_pad_test ex_pad_noise ev show ?thesis
    by (intro conjI) (erule conjunct1 | (elim conjE, assumption))+
qed

section \<open>Checkpoints\<close>

text \<open>
  C7. \<^verbatim>\<open>load()\<close> loads the weights from \<^verbatim>\<open>opt['path']['pretrain_model_G']\<close> with the
  configured \<^verbatim>\<open>strict_load\<close> flag when that path is not \<^verbatim>\<open>None\<close> and changes nothing when
  it is \<^verbatim>\<open>None\<close>; \<^verbatim>\<open>save(iter_label)\<close> always saves the network under the label \<^verbatim>\<open>'G'\<close>.
\<close>

theorem load_conditional_save_always:
  "load s =
     (Inr (), (case pretrain_model_G (opt s) of
                 None \<Rightarrow> s
               | Some p \<Rightarrow>
                   s\<lparr>events := events s @ [LogInfo, LoadNetwork p (strict_load (opt s))]\<rparr>))
   \<and> save iter_label s = (Inr (), s\<lparr>events := events s @ [SaveNetwork ''G'' iter_label]\<rparr>)"
  by (simp add: load_def save_def prog_defs split: option.splits)

theorem load_conditional_save_always_witness:
  "load ex_fed = (Inr (), ex_fed) \<and>
   load (ex_fed\<lparr>opt := ex_opt\<lparr>pretrain_model_G := Some ''G.pth''\<rparr>\<rparr>) =
     (Inr (), ex_fed\<lparr>opt := ex_opt\<lparr>pretrain_model_G := Some ''G.pth''\<rparr>,
                     events := events ex_fed @ [LogInfo, LoadNetwork ''G.pth'' True]\<rparr>) \<and>
   save ''latest'' ex_fed =
     (Inr (), ex_fed\<lparr>events := events ex_fed @ [SaveNetwork ''G'' ''latest'']\<rparr>)"
proof -
  have o: "pretrain_model_G (opt ex_fed) = None"
    by (simp add: ex_defs model_defs prog_defs Let_def)
  show ?thesis
    using load_conditional_save_always [of ex_fed "''latest''"]
      load_conditional_save_always
        [of "ex_fed\<lparr>opt := ex_opt\<lparr>pretrain_model_G := Some ''G.pth''\<rparr>\<rparr>" "''latest''"] o
    by (simp add: ex_opt_def)
qed

section \<open>Schedulers\<close>

text \<open>
  C8, as the code has it. In a training-mode construction the optimizer is built on line
  57 before the scheduler is selected on line 63: when \<^verbatim>\<open>torch.optim.Adam\<close> rejects its
  arguments, the constructor raises that error (\<^verbatim>\<open>ValueError\<close>) whatever \<^verbatim>\<open>lr_scheme\<close> is.
  When it accepts them, a \<^verbatim>\<open>lr_scheme\<close> that is neither \<^verbatim>\<open>'MultiStepLR'\<close> nor
  \<^verbatim>\<open>'CosineAnnealingLR_Restart'\<close> makes the constructor raise \<^verbatim>\<open>NotImplementedError\<close>, and
  for each of the two values the constructor appends the new optimizer to the optimizers
  and then one scheduler of that kind per optimizer, in the order of the optimizers.
\<close>

theorem scheduler_per_optimizer:
  assumes "base_is_train (BaseModel_init env cfg)" and "opt_train cfg = Some t"
  shows "(torch_optim_Adam
            (map fst (filter snd (named_parameters env
               (if opt_dist cfg then DistributedDataParallel (define_G env cfg)
                else DataParallel (define_G env cfg)))))
            (lr_G t)
            (case weight_decay_G t of None \<Rightarrow> 0 | Some v \<Rightarrow> if v \<noteq> 0 then v else 0)
            (beta1 t) (beta2 t) = Inl e
          \<longrightarrow> InvSRModel_init env cfg = Inl e)
       \<and> (torch_optim_Adam
            (map fst (filter snd (named_parameters env
               (if opt_dist cfg then DistributedDataParallel (define_G env cfg)
                else DataParallel (define_G env cfg)))))
            (lr_G t)
            (case weight_decay_G t of None \<Rightarrow> 0 | Some v \<Rightarrow> if v \<noteq> 0 then v else 0)
            (beta1 t) (beta2 t) = Inr adam
          \<longrightarrow>
            (lr_scheme t \<noteq> Some ''MultiStepLR'' \<and>
             lr_scheme t \<noteq> Some ''CosineAnnealingLR_Restart''
               \<longrightarrow> InvSRModel_init env cfg = Inl NotImplementedError)
          \<and> (lr_scheme t = Some ''MultiStepLR'' \<longrightarrow>
               (\<exists>s. InvSRModel_init env cfg = Inr s \<and>
                    optimizers s = base_optimizers (BaseModel_init env cfg) @ [adam] \<and>
                    schedulers s = base_schedulers (BaseModel_init env cfg) @
                      map (\<lambda>optimizer. MultiStepLR_Restart optimizer (lr_steps t) (restarts t)
                             (restart_weights t) (lr_gamma t) (clear_state t)) (optimizers s)))
          \<and> (lr_scheme t = Some ''CosineAnnealingLR_Restart'' \<longrightarrow>
               (\<exists>s. InvSRModel_init env cfg = Inr s \<and>
                    optimizers s = base_optimizers (BaseModel_init env cfg) @ [adam] \<and>
                    schedulers s = base_schedulers (BaseModel_init env cfg) @
                      map (\<lambda>optimizer. CosineAnnealingLR_Restart optimizer (T_period t)
                             (eta_min t) (restarts t) (restart_weights t)) (optimizers s))))"
  using assms
  by (simp add: InvSRModel_init_def fresh_model_def prog_defs print_network_def load_def
      train_setup_def Let_def split: option.splits)

theorem scheduler_per_optimizer_witness:
  "base_is_train (BaseModel_init ex_env ex_opt) \<and> opt_train ex_opt = Some ex_train \<and>
   torch_optim_Adam [''weight''] 1 0 0 0 = Inr (Adam [''weight''] 1 0 0 0) \<and>
   lr_scheme ex_train = Some ''MultiStepLR'' \<and>
   (\<exists>s. InvSRModel_init ex_env ex_opt = Inr s \<and>
        optimizers s = [Adam [''weight''] 1 0 0 0] \<and>
        schedulers s =
          map (\<lambda>optimizer. MultiStepLR_Restart optimizer [100] None None 1 None)
            (optimizers s)) \<and>
   (\<exists>s. InvSRModel_init ex_env
          (ex_opt\<lparr>opt_train :=
             Some (ex_train\<lparr>lr_scheme := Some ''CosineAnnealingLR_Restart'',
                            T_period := [100]\<rparr>)\<rparr>) = Inr s \<and>
        optimizers s = [Adam [''weight''] 1 0 0 0] \<and>
        schedulers s =
          map (\<lambda>optimizer. CosineAnnealingLR_Restart optimizer [100] 0 None None)
            (optimizers s)) \<and>
   InvSRModel_init ex_env (ex_opt\<lparr>opt_train := Some (ex_train\<lparr>lr_scheme := None\<rparr>)\<rparr>)
     = Inl NotImplementedError \<and>
   torch_optim_Adam [''weight''] 1 0 1 0 = Inl ValueError \<and>
   InvSRModel_init ex_env (ex_opt\<lparr>opt_train := Some (ex_train\<lparr>beta1 := 1\<rparr>)\<rparr>)
     = Inl ValueError"
proof -
  have b: "\<And>c. base_is_train (BaseModel_init ex_env c)"
    by (simp add: ex_env_def)
  have e: "\<And>c. base_schedulers (BaseModel_init ex_env c) = []"
      "\<And>c. base_optimizers (BaseModel_init ex_env c) = []"
      "\<And>n. map fst (filter snd (named_parameters ex_env n)) = [''weight'']"
    by (simp_all add: ex_env_def)
  have t1: "opt_train ex_opt = Some ex_train"
    by (simp add: ex_opt_def)
  have t2: "opt_train (ex_opt\<lparr>opt_train :=
                Some (ex_train\<lparr>lr_scheme := Some ''CosineAnnealingLR_Restart'',
                               T_period := [100]\<rparr>)\<rparr>)
              = Some (ex_train\<lparr>lr_scheme := Some ''CosineAnnealingLR_Restart'',
                               T_period := [100]\<rparr>)"
    by simp
  have t3: "opt_train (ex_opt\<lparr>opt_train := Some (ex_train\<lparr>lr_scheme := None\<rparr>)\<rparr>)
              = Some (ex_train\<lparr>lr_scheme := None\<rparr>)"
    by simp
  have t4: "opt_train (ex_opt\<lparr>opt_train := Some (ex_train\<lparr>beta1 := 1\<rparr>)\<rparr>)
              = Some (ex_train\<lparr>beta1 := 1\<rparr>)"
    by simp
  have a1: "torch_optim_Adam [''weight''] 1 0 0 0 = Inr (Adam [''weight''] 1 0 0 0)"
    by (simp add: torch_optim_Adam_def)
  have a2: "torch_optim_Adam [''weight''] 1 0 1 0 = Inl ValueError"
    by (simp add: torch_optim_Adam_def)
  show ?thesis
    using scheduler_per_optimizer [OF b t1, of ValueError "Adam [''weight''] 1 0 0 0"]
      scheduler_per_optimizer [OF b t2, of ValueError "Adam [''weight''] 1 0 0 0"]
      scheduler_per_optimizer [OF b t3, of ValueError "Adam [''weight''] 1 0 0 0"]
      scheduler_per_optimizer [OF b t4, of ValueError "Adam [''weight''] 1 0 0 0"] b t1 a1 a2
    by (simp add: e ex_train_def)
qed

text \<open>
  With a negative learning rate and no \<^verbatim>\<open>lr_scheme\<close>, the constructor raises the
  \<^verbatim>\<open>ValueError\<close> of \<^verbatim>\<open>torch.optim.Adam\<close> on line 57; it never reaches line 78 and its
  \<^verbatim>\<open>NotImplementedError\<close>.
\<close>

theorem constructor_raises_value_error:
  "base_is_train (BaseModel_init ex_env
     (ex_opt\<lparr>opt_train := Some (ex_train\<lparr>lr_G := - 1, lr_scheme := None\<rparr>)\<rparr>)) \<and>
   lr_scheme (ex_train\<lparr>lr_G := - 1, lr_scheme := None\<rparr>) \<noteq> Some ''MultiStepLR'' \<and>
   lr_scheme (ex_train\<lparr>lr_G := - 1, lr_scheme := None\<rparr>) \<noteq> Some ''CosineAnnealingLR_Restart'' \<and>
   InvSRModel_init ex_env
     (ex_opt\<lparr>opt_train := Some (ex_train\<lparr>lr_G := - 1, lr_scheme := None\<rparr>)\<rparr>)
     = Inl ValueError"
  by (simp add: ex_defs model_defs prog_defs Let_def)

section \<open>The wrapped network\<close>

lemma net_inv_pad_input: "hoare (net_inv n) (pad_input env p) (net_inv n)"
  unfolding pad_input_def
  by (intro hoare_intros) (simp_all add: net_inv_def calls_on_def)

lemma net_inv_plain_input: "hoare (net_inv n) plain_input (net_inv n)"
  unfolding plain_input_def
  by (intro hoare_intros) (simp_all add: net_inv_def)

lemma net_inv_test: "hoare (net_inv n) (test env) (net_inv n)"
  unfolding test_def test_input_def Let_def
  by (intro hoare_intros hoare_no_grad_same net_inv_pad_input net_inv_plain_input)
     (simp_all add: net_inv_def calls_on_def)

lemma net_inv_loss_forward: "hoare (net_inv n) (loss_forward env out y) (net_inv n)"
  unfolding loss_forward_def Let_def
  by (intro hoare_intros) simp_all

lemma net_inv_loss_backward: "hoare (net_inv n) (loss_backward env x y) (net_inv n)"
  unfolding loss_backward_def Let_def
  by (intro hoare_intros) (simp_all add: net_inv_def calls_on_def)

lemma net_inv_optimize_parameters:
  "hoare (net_inv n) (optimize_parameters env step) (net_inv n)"
  unfolding optimize_parameters_def Let_def
  by (intro hoare_intros net_inv_pad_input net_inv_plain_input net_inv_loss_forward
      net_inv_loss_backward)
     (simp_all add: net_inv_def calls_on_def)

lemma net_inv_feed_data: "hoare (net_inv n) (feed_data d g) (net_inv n)"
  unfolding feed_data_def
  by (intro hoare_intros) (simp_all add: net_inv_def)

lemma net_inv_load: "hoare (net_inv n) load (net_inv n)"
  unfolding load_def
  by (intro hoare_intros) (simp_all add: net_inv_def calls_on_def)

lemma net_inv_save: "hoare (net_inv n) (save l) (net_inv n)"
  unfolding save_def
  by (intro hoare_intros) (simp_all add: net_inv_def calls_on_def)

lemma net_inv_run: "hoare (net_inv n) (run env c) (net_inv n)"
  by (cases c) (simp_all add: net_inv_feed_data net_inv_optimize_parameters net_inv_test
      net_inv_load net_inv_save)

lemma init_netG:
  assumes "InvSRModel_init env cfg = Inr s"
  shows "netG s = (if opt_dist cfg then DistributedDataParallel (define_G env cfg)
                   else DataParallel (define_G env cfg)) \<and> calls_on (netG s) (events s)"
  using assms
  by (auto simp: InvSRModel_init_def fresh_model_def prog_defs print_network_def load_def
      train_setup_def Let_def calls_on_def
      split: option.splits if_splits sum.splits prod.splits)

text \<open>
  C6. The constructor wraps the network returned by \<^verbatim>\<open>networks.define_G\<close> in
  \<^verbatim>\<open>DistributedDataParallel\<close> when \<^verbatim>\<open>opt['dist']\<close> is true and in \<^verbatim>\<open>DataParallel\<close>
  otherwise. Whatever methods are called afterwards, \<^verbatim>\<open>self.netG\<close> stays that wrapped
  network and every forward and reverse call is a call of it.
\<close>

theorem one_wrapped_network:
  assumes "InvSRModel_init env cfg = Inr s"
  shows "netG s = (if opt_dist cfg then DistributedDataParallel (define_G env cfg)
                   else DataParallel (define_G env cfg)) \<and>
         netG (run_all env cs s) = netG s \<and>
         calls_on (netG s) (events (run_all env cs s))"
proof -
  from init_netG [OF assms] have "net_inv (netG s) s"
    unfolding net_inv_def by blast
  then have "net_inv (netG s) (run_all env cs s)"
    by (rule hoare_run_all [OF net_inv_run])
  then have "netG (run_all env cs s) = netG s \<and>
             calls_on (netG s) (events (run_all env cs s))"
    unfolding net_inv_def .
  with init_netG [OF assms] show ?thesis
    by blast
qed

theorem one_wrapped_network_witness:
  "InvSRModel_init ex_env ex_opt = Inr ex_model \<and>
   netG ex_model = DataParallel () \<and>
   netG (run_all ex_env ex_calls ex_model) = DataParallel () \<and>
   calls_on (DataParallel ()) (events (run_all ex_env ex_calls ex_model))"
proof -
  have d: "\<not> opt_dist ex_opt" "define_G ex_env ex_opt = ()"
    by (simp_all add: ex_opt_def)
  from one_wrapped_network [OF ex_init, of ex_calls] d
  have n: "netG ex_model = DataParallel ()"
    by simp
  from one_wrapped_network [OF ex_init, of ex_calls] ex_init show ?thesis
    unfolding n by blast
qed

section \<open>Channel accounting\<close>

text \<open>
  C9. In a \<^verbatim>\<open>test()\<close> call that returns, with \<^verbatim>\<open>input_dim\<close> the channel count of
  \<^verbatim>\<open>var_L\<close> plus \<^verbatim>\<open>padding_x\<close> (when the training options have one), the latent noise has
  \<^verbatim>\<open>input_dim * scale^2 - Lshape[1]\<close> channels, a number that is not negative, and the
  input \<^verbatim>\<open>y\<close> of the reverse pass has \<^verbatim>\<open>input_dim * scale^2\<close> channels, in integer
  arithmetic.
\<close>

theorem test_channel_accounting:
  assumes "test env s = (Inr (), s')" and "var_L s = Some L"
  shows "\<exists>input_dim z y k.
     input_dim = int (chans L) +
       (case train_opt s of None \<Rightarrow> 0
        | Some t \<Rightarrow> (case padding_x t of None \<Rightarrow> 0 | Some p \<Rightarrow> p)) \<and>
     0 \<le> input_dim * (opt_scale (opt s))\<^sup>2 - int (chans L) \<and>
     z = randn (samples env) k (batch L)
           (nat (input_dim * (opt_scale (opt s))\<^sup>2 - int (chans L))) (rows L) (cols L) \<and>
     int (chans z) = input_dim * (opt_scale (opt s))\<^sup>2 - int (chans L) \<and>
     torch_cat L (smul (test_noise_scale (test_opt s)) z) = Inr y \<and>
     int (chans y) = input_dim * (opt_scale (opt s))\<^sup>2 \<and>
     Randn (int (batch L), input_dim * (opt_scale (opt s))\<^sup>2 - int (chans L),
            int (rows L), int (cols L)) \<in> set (events s') \<and>
     NetCall (netG s) True False False y \<in> set (events s')"
proof -
  from test_Inr [OF assms(1)] assms(2) obtain d s1 c z y where
    ti: "test_input env L s = (Inr d, s1)" and
    c: "c = d * (opt_scale (opt s))\<^sup>2 - int (chans L)" "0 \<le> c" and
    z: "z = randn (samples env) (rng s1) (batch L) (nat c) (rows L) (cols L)" and
    y: "torch_cat L (smul (test_noise_scale (test_opt s)) z) = Inr y" and
    ev: "Randn (int (batch L), c, int (rows L), int (cols L)) \<in> set (events s')"
        "NetCall (netG s) True False False y \<in> set (events s')"
    by auto
  from test_input_Inr [OF ti] have d: "d = int (chans L) +
       (case train_opt s of None \<Rightarrow> 0
        | Some t \<Rightarrow> (case padding_x t of None \<Rightarrow> 0 | Some p \<Rightarrow> p))"
    by blast
  have cz: "int (chans z) = c"
    using c(2) by (simp add: z chans_randn)
  have cy: "int (chans y) = d * (opt_scale (opt s))\<^sup>2"
    using chans_cat [OF y] cz c(1) by (simp add: chans_smul)
  show ?thesis
    using d c z y ev cz cy by blast
qed

theorem test_channel_accounting_witness:
  "test ex_env ex_fed_x2 = (Inr (), snd (test ex_env ex_fed_x2)) \<and>
   var_L ex_fed_x2 = Some (ones 1 1) \<and>
   (\<exists>input_dim z y k.
     input_dim = int (chans (ones 1 1)) +
       (case train_opt ex_fed_x2 of None \<Rightarrow> 0
        | Some t \<Rightarrow> (case padding_x t of None \<Rightarrow> 0 | Some p \<Rightarrow> p)) \<and>
     0 \<le> input_dim * (opt_scale (opt ex_fed_x2))\<^sup>2 - int (chans (ones 1 1)) \<and>
     z = randn (samples ex_env) k (batch (ones 1 1))
           (nat (input_dim * (opt_scale (opt ex_fed_x2))\<^sup>2 - int (chans (ones 1 1))))
           (rows (ones 1 1)) (cols (ones 1 1)) \<and>
     int (chans z) = input_dim * (opt_scale (opt ex_fed_x2))\<^sup>2 - int (chans (ones 1 1)) \<and>
     torch_cat (ones 1 1) (smul (test_noise_scale (test_opt ex_fed_x2)) z) = Inr y \<and>
     int (chans y) = input_dim * (opt_scale (opt ex_fed_x2))\<^sup>2 \<and>
     Randn (int (batch (ones 1 1)),
            input_dim * (opt_scale (opt ex_fed_x2))\<^sup>2 - int (chans (ones 1 1)),
            int (rows (ones 1 1)), int (cols (ones 1 1)))
       \<in> set (events (snd (test ex_env ex_fed_x2))) \<and>
     NetCall (netG ex_fed_x2) True False False y
       \<in> set (events (snd (test ex_env ex_fed_x2))))"
proof -
  have run: "test ex_env ex_fed_x2 = (Inr (), snd (test ex_env ex_fed_x2))"
    by (rule pair_fst_snd) (rule ex_x2_ok)
  from test_channel_accounting [OF run ex_x2_var] run ex_x2_var show ?thesis
    by (intro conjI)
qed

section \<open>Eval mode\<close>

lemma hoareD: "hoare P m Q \<Longrightarrow> P s \<Longrightarrow> m s = (r, s') \<Longrightarrow> Q s'"
  by (auto simp: hoare_def)

lemma grad_pad_input: "hoare (\<lambda>s. grad_enabled s = g) (pad_input env p) (\<lambda>s. grad_enabled s = g)"
  unfolding pad_input_def
  by (intro hoare_intros) simp_all

lemma grad_plain_input: "hoare (\<lambda>s. grad_enabled s = g) plain_input (\<lambda>s. grad_enabled s = g)"
  unfolding plain_input_def
  by (intro hoare_intros) simp_all

lemma grad_no_grad: "hoare (\<lambda>s. grad_enabled s = g) (no_grad m) (\<lambda>s. grad_enabled s = g)"
  by (auto simp: hoare_def no_grad_def split: prod.splits)

lemma grad_test: "hoare (\<lambda>s. grad_enabled s = g) (test env) (\<lambda>s. grad_enabled s = g)"
  unfolding test_def test_input_def Let_def
  by (intro hoare_intros grad_no_grad grad_pad_input grad_plain_input) simp_all

lemma ext_pad_input: "hoare (extends_eval b) (pad_input env p) (extends_eval b)"
  unfolding pad_input_def
  by (intro hoare_intros) (auto simp: extends_eval_def eval_calls_def)

lemma ext_plain_input: "hoare (extends_eval b) plain_input (extends_eval b)"
  unfolding plain_input_def
  by (intro hoare_intros) (auto simp: extends_eval_def eval_calls_def)

lemma ext_test_input: "hoare (extends_eval b) (test_input env L) (extends_eval b)"
  unfolding test_input_def
  by (intro hoare_intros ext_pad_input ext_plain_input) auto

lemma ext_inner1:
  "hoare (\<lambda>s. extends_eval b s \<and> \<not> training s \<and> \<not> grad_enabled s)
     (bnd (call_net env True y) (\<lambda>o1.
      bnd (modify (\<lambda>s. s\<lparr>fake_H := Some (narrow_to 3 o1)\<rparr>)) (\<lambda>_.
      bnd (attr self_input) (\<lambda>inp.
      bnd (call_net env False inp) (\<lambda>o2.
      modify (\<lambda>s. s\<lparr>forw_L := Some (narrow_to 3 o2)\<rparr>))))))
     (\<lambda>s. extends_eval b s \<and> \<not> training s \<and> \<not> grad_enabled s)"
  by (intro hoare_intros) (auto simp: extends_eval_def eval_calls_def)

lemma ext_inner2:
  "hoare (\<lambda>s. extends_eval b s \<and> \<not> training s \<and> \<not> grad_enabled s)
     (bnd (call_net env True y) (\<lambda>o3.
      modify (\<lambda>s. s\<lparr>fake_H_forw := Some (narrow_to 3 o3)\<rparr>)))
     (\<lambda>s. extends_eval b s \<and> \<not> training s \<and> \<not> grad_enabled s)"
  by (intro hoare_intros) (auto simp: extends_eval_def eval_calls_def)

lemma ext_tail:
  "hoare (\<lambda>s. extends_eval b s \<and> \<not> training s)
     (bnd (no_grad
            (bnd (call_net env True y) (\<lambda>o1.
             bnd (modify (\<lambda>s. s\<lparr>fake_H := Some (narrow_to 3 o1)\<rparr>)) (\<lambda>_.
             bnd (attr self_input) (\<lambda>inp.
             bnd (call_net env False inp) (\<lambda>o2.
             modify (\<lambda>s. s\<lparr>forw_L := Some (narrow_to 3 o2)\<rparr>))))))) (\<lambda>_.
     bnd (attr forw_L) (\<lambda>fl.
     bnd (noise_batch env zshape) (\<lambda>z2.
     bnd (lift (torch_cat fl (smul ns z2))) (\<lambda>y_forw.
     bnd (no_grad
            (bnd (call_net env True y_forw) (\<lambda>o3.
             modify (\<lambda>s. s\<lparr>fake_H_forw := Some (narrow_to 3 o3)\<rparr>)))) (\<lambda>_.
     modify (\<lambda>s. s\<lparr>training := True\<rparr>)))))))
     (extends_eval b)"
  by (intro hoare_intros
        hoare_no_grad [where R = "\<lambda>s. extends_eval b s \<and> \<not> training s \<and> \<not> grad_enabled s"]
        ext_inner1 ext_inner2)
     (auto simp: extends_eval_def eval_calls_def)

lemma ext_test: "hoare (extends_eval b) (test env) (extends_eval b)"
  unfolding test_def Let_def
  by (intro hoare_modify_then [where R = "\<lambda>s. extends_eval b s \<and> \<not> training s"] ext_tail
        hoare_intros ext_test_input)
     (auto simp: extends_eval_def eval_calls_def)

lemma tr_pad_input: "hoare (\<lambda>s. training s = b) (pad_input env p) (\<lambda>s. training s = b)"
  unfolding pad_input_def
  by (intro hoare_intros) simp_all

lemma tr_plain_input: "hoare (\<lambda>s. training s = b) plain_input (\<lambda>s. training s = b)"
  unfolding plain_input_def
  by (intro hoare_intros) simp_all

lemma tr_loss_forward: "hoare (\<lambda>s. training s = b) (loss_forward env out y) (\<lambda>s. training s = b)"
  unfolding loss_forward_def Let_def
  by (intro hoare_intros) simp_all

lemma tr_loss_backward: "hoare (\<lambda>s. training s = b) (loss_backward env x y) (\<lambda>s. training s = b)"
  unfolding loss_backward_def Let_def
  by (intro hoare_intros) simp_all

lemma tr_optimize_parameters:
  "hoare (\<lambda>s. training s = b) (optimize_parameters env step) (\<lambda>s. training s = b)"
  unfolding optimize_parameters_def Let_def
  by (intro hoare_intros tr_pad_input tr_plain_input tr_loss_forward tr_loss_backward) simp_all

lemma tr_feed_data: "hoare (\<lambda>s. training s = b) (feed_data d g) (\<lambda>s. training s = b)"
  unfolding feed_data_def
  by (intro hoare_intros) simp_all

lemma tr_load: "hoare (\<lambda>s. training s = b) load (\<lambda>s. training s = b)"
  unfolding load_def
  by (intro hoare_intros) simp_all

lemma tr_save: "hoare (\<lambda>s. training s = b) (save l) (\<lambda>s. training s = b)"
  unfolding save_def
  by (intro hoare_intros) simp_all

lemma tr_run: "c \<noteq> Test \<Longrightarrow> hoare (\<lambda>s. training s = b) (run env c) (\<lambda>s. training s = b)"
  by (cases c) (simp_all add: tr_feed_data tr_optimize_parameters tr_load tr_save)

lemma init_training: "InvSRModel_init env cfg = Inr s \<Longrightarrow> training s"
  by (auto simp: InvSRModel_init_def fresh_model_def prog_defs print_network_def load_def
      train_setup_def Let_def
      split: option.splits if_splits sum.splits prod.splits)


lemma test_Inr_events:
  assumes "test env s = (Inr (), s')"
  shows "\<exists>pre d y inp yf.
         events s' = events s @ pre @
           [Randn d, NetCall (netG s) True False False y,
            NetCall (netG s) False False False inp, Randn d,
            NetCall (netG s) True False False yf] \<and>
         (pre = [] \<or> (\<exists>d'. pre = [Randn d']))"
proof -
  from test_Inr [OF assms] obtain L d s1 c y inp yf where
    ti: "test_input env L s = (Inr d, s1)" and
    ev: "events s' = events s1 @
       [Randn (int (batch L), c, int (rows L), int (cols L)),
        NetCall (netG s) True False False y,
        NetCall (netG s) False False False inp,
        Randn (int (batch L), c, int (rows L), int (cols L)),
        NetCall (netG s) True False False yf]"
    by (elim exE conjE) (rule that)
  from test_input_Inr [OF ti] obtain es where
    es: "events s1 = events s @ es" "es = [] \<or> (\<exists>d'. es = [Randn d'])"
    by (elim exE conjE disjE) (rule that, assumption, simp)+
  have "events s' = events s @ es @
       [Randn (int (batch L), c, int (rows L), int (cols L)),
        NetCall (netG s) True False False y,
        NetCall (netG s) False False False inp,
        Randn (int (batch L), c, int (rows L), int (cols L)),
        NetCall (netG s) True False False yf]"
    by (simp add: ev es(1))
  with es(2) show ?thesis
    by (intro exI conjI)
qed

lemma ex_stale_run:
  "var_L ex_stale = Some (ones 1 3) \<and> real_H ex_stale = Some (ones 2 3) \<and>
   training ex_stale \<and> fst (test ex_env ex_stale) = Inl RuntimeError \<and>
   \<not> training (snd (test ex_env ex_stale))"
  by (simp add: ex_defs model_defs prog_defs Let_def)

text \<open>
  C4, as the code has it. In \<^verbatim>\<open>test()\<close> every network call is made with the module in
  eval mode and with gradients off, whether the call returns or raises, and the previous
  gradient setting is restored on every exit. A \<^verbatim>\<open>test()\<close> call that returns has made
  exactly the two reverse calls and the forward call, and leaves the module in train mode.
  No other method changes the mode, and the constructor leaves the module in train mode.
\<close>

theorem test_eval_mode:
  "(test env s = (r, s') \<longrightarrow>
      grad_enabled s' = grad_enabled s \<and>
      (\<exists>es. events s' = events s @ es \<and> eval_calls es)) \<and>
   (test env s = (Inr (), s1) \<longrightarrow>
      training s1 \<and>
      (\<exists>pre d y inp yf.
         events s1 = events s @ pre @
           [Randn d, NetCall (netG s) True False False y,
            NetCall (netG s) False False False inp, Randn d,
            NetCall (netG s) True False False yf] \<and>
         (pre = [] \<or> (\<exists>d'. pre = [Randn d'])))) \<and>
   (c \<noteq> Test \<longrightarrow> training (snd (run env c s)) = training s) \<and>
   (InvSRModel_init env cfg = Inr s0 \<longrightarrow> training s0)"
proof (intro conjI impI)
  assume t: "test env s = (r, s')"
  show "grad_enabled s' = grad_enabled s"
    by (rule hoareD [OF grad_test _ t]) simp
  have "extends_eval (events s) s"
    by (simp add: extends_eval_def eval_calls_def)
  from hoareD [OF ext_test this t] show "\<exists>es. events s' = events s @ es \<and> eval_calls es"
    by (simp add: extends_eval_def)
next
  assume t: "test env s = (Inr (), s1)"
  from test_Inr [OF t] show "training s1"
    by (elim exE conjE)
  from t show "\<exists>pre d y inp yf.
         events s1 = events s @ pre @
           [Randn d, NetCall (netG s) True False False y,
            NetCall (netG s) False False False inp, Randn d,
            NetCall (netG s) True False False yf] \<and>
         (pre = [] \<or> (\<exists>d'. pre = [Randn d']))"
    by (rule test_Inr_events)
next
  assume "c \<noteq> Test"
  from tr_run [OF this, of "training s" env] show "training (snd (run env c s)) = training s"
    by (simp add: hoare_def)
next
  assume "InvSRModel_init env cfg = Inr s0"
  then show "training s0"
    by (rule init_training)
qed

theorem test_eval_mode_witness:
  "test ex_env ex_fed = (Inr (), snd (test ex_env ex_fed)) \<and>
   grad_enabled (snd (test ex_env ex_fed)) = grad_enabled ex_fed \<and>
   (\<exists>es. events (snd (test ex_env ex_fed)) = events ex_fed @ es \<and> eval_calls es) \<and>
   training (snd (test ex_env ex_fed)) \<and>
   (\<exists>pre d y inp yf.
      events (snd (test ex_env ex_fed)) = events ex_fed @ pre @
        [Randn d, NetCall (netG ex_fed) True False False y,
         NetCall (netG ex_fed) False False False inp, Randn d,
         NetCall (netG ex_fed) True False False yf] \<and>
      (pre = [] \<or> (\<exists>d'. pre = [Randn d']))) \<and>
   OptimizeParameters 1 \<noteq> Test \<and>
   training (snd (run ex_env (OptimizeParameters 1) ex_fed)) = training ex_fed \<and>
   InvSRModel_init ex_env ex_opt = Inr ex_model \<and> training ex_model"
proof -
  have run: "test ex_env ex_fed = (Inr (), snd (test ex_env ex_fed))"
    by (rule pair_fst_snd) (rule ex_test_ok)
  have ne: "OptimizeParameters 1 \<noteq> Test"
    by simp
  note th = test_eval_mode [where env = ex_env and s = ex_fed and r = "Inr ()"
      and s' = "snd (test ex_env ex_fed)" and ?s1.0 = "snd (test ex_env ex_fed)"
      and c = "OptimizeParameters 1" and cfg = ex_opt and ?s0.0 = ex_model]
  from th run ne ex_init show ?thesis
    by blast
qed

text \<open>
  A \<^verbatim>\<open>test()\<close> call that raises after \<^verbatim>\<open>self.netG.eval()\<close> leaves the module in eval
  mode: here, at scale 2, \<^verbatim>\<open>real_H\<close> is left from a batch of two images, \<^verbatim>\<open>var_L\<close> holds
  one image, and \<^verbatim>\<open>torch.cat\<close> on line 177 raises on the two batch sizes.
\<close>

theorem test_raises_in_eval_mode:
  "var_L ex_stale = Some (ones 1 3) \<and> real_H ex_stale = Some (ones 2 3) \<and>
   training ex_stale \<and> fst (test ex_env ex_stale) = Inl RuntimeError \<and>
   \<not> training (snd (test ex_env ex_stale))"
  by (rule ex_stale_run)

section \<open>The ground truth at test time\<close>

lemma feed_no_GT: "feed_data d False s = (Inr (), s\<lparr>var_L := Some (LQ d)\<rparr>)"
  by (simp add: feed_data_def prog_defs)

lemma test_unset_real_H: "real_H s = None \<Longrightarrow> fst (test env s) = Inl AttributeError"
  by (simp add: test_def test_input_def pad_input_def plain_input_def prog_defs
      split: option.splits)

lemma test_reads_real_H:
  assumes "test env s = (Inr (), s')"
  shows "\<exists>H inp. real_H s = Some H \<and>
     NetCall (netG s) False False False inp \<in> set (events s') \<and>
     (inp = H \<or> (\<exists>z. torch_cat H z = Inr inp))"
proof -
  from test_Inr [OF assms] obtain L d s1 inp where
    ti: "test_input env L s = (Inr d, s1)" and
    inp: "self_input s1 = Some inp" and
    ev: "NetCall (netG s) False False False inp \<in> set (events s')"
    by auto
  from test_input_Inr [OF ti] inp obtain H where
    "real_H s = Some H" "inp = H \<or> (\<exists>z. torch_cat H z = Inr inp)"
    by auto
  with ev show ?thesis
    by blast
qed

lemma rh_pad_input: "hoare (\<lambda>s. real_H s = v) (pad_input env p) (\<lambda>s. real_H s = v)"
  unfolding pad_input_def
  by (intro hoare_intros) simp_all

lemma rh_plain_input: "hoare (\<lambda>s. real_H s = v) plain_input (\<lambda>s. real_H s = v)"
  unfolding plain_input_def
  by (intro hoare_intros) simp_all

lemma rh_loss_forward: "hoare (\<lambda>s. real_H s = v) (loss_forward env out y) (\<lambda>s. real_H s = v)"
  unfolding loss_forward_def Let_def
  by (intro hoare_intros) simp_all

lemma rh_loss_backward: "hoare (\<lambda>s. real_H s = v) (loss_backward env x y) (\<lambda>s. real_H s = v)"
  unfolding loss_backward_def Let_def
  by (intro hoare_intros) simp_all

lemma rh_optimize_parameters:
  "hoare (\<lambda>s. real_H s = v) (optimize_parameters env step) (\<lambda>s. real_H s = v)"
  unfolding optimize_parameters_def Let_def
  by (intro hoare_intros rh_pad_input rh_plain_input rh_loss_forward rh_loss_backward) simp_all

lemma rh_test: "hoare (\<lambda>s. real_H s = v) (test env) (\<lambda>s. real_H s = v)"
  unfolding test_def test_input_def Let_def
  by (intro hoare_intros hoare_no_grad_same rh_pad_input rh_plain_input) simp_all

lemma rh_feed_data: "hoare (\<lambda>s. real_H s = v) (feed_data d False) (\<lambda>s. real_H s = v)"
  by (simp add: hoare_def feed_data_def prog_defs)

lemma rh_load: "hoare (\<lambda>s. real_H s = v) load (\<lambda>s. real_H s = v)"
  unfolding load_def
  by (intro hoare_intros) simp_all

lemma rh_save: "hoare (\<lambda>s. real_H s = v) (save l) (\<lambda>s. real_H s = v)"
  unfolding save_def
  by (intro hoare_intros) simp_all

lemma rh_run:
  "(\<And>d. c \<noteq> FeedData d True) \<Longrightarrow> hoare (\<lambda>s. real_H s = v) (run env c) (\<lambda>s. real_H s = v)"
  by (cases c) (auto simp: rh_feed_data rh_optimize_parameters rh_test rh_load rh_save)

lemma init_real_H: "InvSRModel_init env cfg = Inr s \<Longrightarrow> real_H s = None"
  by (auto simp: InvSRModel_init_def fresh_model_def prog_defs print_network_def load_def
      train_setup_def Let_def
      split: option.splits if_splits sum.splits prod.splits)

lemma needs_feed:
  assumes i: "InvSRModel_init env cfg = Inr s0"
    and t: "fst (test env (run_all env cs s0)) = Inr ()"
  shows "\<exists>d. FeedData d True \<in> set cs"
proof (rule ccontr)
  assume n: "\<nexists>d. FeedData d True \<in> set cs"
  have "real_H (run_all env cs s0) = None"
  proof (rule hoare_run_all [where P = "\<lambda>s. real_H s = None"])
    fix c assume "c \<in> set cs"
    with n have "\<And>d. c \<noteq> FeedData d True"
      by blast
    then show "hoare (\<lambda>s. real_H s = None) (run env c) (\<lambda>s. real_H s = None)"
      by (rule rh_run)
  next
    show "real_H s0 = None"
      by (rule init_real_H [OF i])
  qed
  from test_unset_real_H [OF this, of env] t show False
    by simp
qed

lemma ex_unset: "real_H ex_model = None"
  by (simp add: ex_defs model_defs prog_defs Let_def)

lemma ex_run1: "run_all ex_env [FeedData \<lparr>LQ = ones 1 3, GT = Some (ones 1 3)\<rparr> True] ex_model = ex_fed"
  by (simp add: run_all_def ex_fed_def)

lemma ex_refed_run:
  "real_H ex_fed = Some (ones 1 3) \<and>
   feed_data \<lparr>LQ = ones 1 3, GT = None\<rparr> False ex_fed = (Inr (), ex_refed) \<and>
   real_H ex_refed = Some (ones 1 3) \<and> fst (test ex_env ex_refed) = Inr ()"
  by (simp add: ex_defs model_defs prog_defs Let_def)

text \<open>
  C10, as the code has it. \<^verbatim>\<open>feed_data\<close> with \<^verbatim>\<open>need_GT=False\<close> assigns \<^verbatim>\<open>var_L\<close> and
  nothing else. \<^verbatim>\<open>test()\<close> reads \<^verbatim>\<open>real_H\<close> on every path: with \<^verbatim>\<open>real_H\<close> unset it raises
  \<^verbatim>\<open>AttributeError\<close>, and when it returns, the input of its forward pass is \<^verbatim>\<open>real_H\<close>
  or \<^verbatim>\<open>real_H\<close> followed by padding channels. Hence a \<^verbatim>\<open>test()\<close> that returns after
  construction was preceded by a \<^verbatim>\<open>feed_data\<close> call with \<^verbatim>\<open>need_GT=True\<close>.
\<close>

theorem test_needs_ground_truth:
  "feed_data d False s = (Inr (), s\<lparr>var_L := Some (LQ d)\<rparr>) \<and>
   (real_H s = None \<longrightarrow> fst (test env s) = Inl AttributeError) \<and>
   (test env s = (Inr (), s') \<longrightarrow>
      (\<exists>H inp. real_H s = Some H \<and>
         NetCall (netG s) False False False inp \<in> set (events s') \<and>
         (inp = H \<or> (\<exists>z. torch_cat H z = Inr inp)))) \<and>
   (InvSRModel_init env cfg = Inr s0 \<and> fst (test env (run_all env cs s0)) = Inr () \<longrightarrow>
      (\<exists>d. FeedData d True \<in> set cs))"
proof (intro conjI impI)
  show "feed_data d False s = (Inr (), s\<lparr>var_L := Some (LQ d)\<rparr>)"
    by (rule feed_no_GT)
next
  assume "real_H s = None"
  then show "fst (test env s) = Inl AttributeError"
    by (rule test_unset_real_H)
next
  assume "test env s = (Inr (), s')"
  then show "\<exists>H inp. real_H s = Some H \<and>
         NetCall (netG s) False False False inp \<in> set (events s') \<and>
         (inp = H \<or> (\<exists>z. torch_cat H z = Inr inp))"
    by (rule test_reads_real_H)
next
  assume "InvSRModel_init env cfg = Inr s0 \<and> fst (test env (run_all env cs s0)) = Inr ()"
  then show "\<exists>d. FeedData d True \<in> set cs"
    by (elim conjE) (rule needs_feed)
qed

theorem test_needs_ground_truth_witness:
  "feed_data \<lparr>LQ = ones 1 3, GT = None\<rparr> False ex_fed =
     (Inr (), ex_fed\<lparr>var_L := Some (LQ \<lparr>LQ = ones 1 3, GT = None\<rparr>)\<rparr>) \<and>
   real_H ex_model = None \<and> fst (test ex_env ex_model) = Inl AttributeError \<and>
   test ex_env ex_fed = (Inr (), snd (test ex_env ex_fed)) \<and>
   (\<exists>H inp. real_H ex_fed = Some H \<and>
      NetCall (netG ex_fed) False False False inp \<in> set (events (snd (test ex_env ex_fed))) \<and>
      (inp = H \<or> (\<exists>z. torch_cat H z = Inr inp))) \<and>
   InvSRModel_init ex_env ex_opt = Inr ex_model \<and>
   fst (test ex_env
     (run_all ex_env [FeedData \<lparr>LQ = ones 1 3, GT = Some (ones 1 3)\<rparr> True] ex_model))
     = Inr () \<and>
   (\<exists>d. FeedData d True \<in> set [FeedData \<lparr>LQ = ones 1 3, GT = Some (ones 1 3)\<rparr> True])"
proof -
  have run: "test ex_env ex_fed = (Inr (), snd (test ex_env ex_fed))"
    by (rule pair_fst_snd) (rule ex_test_ok)
  have fed: "fst (test ex_env
     (run_all ex_env [FeedData \<lparr>LQ = ones 1 3, GT = Some (ones 1 3)\<rparr> True] ex_model))
     = Inr ()"
    unfolding ex_run1 by (rule ex_test_ok)
  note th = test_needs_ground_truth [where s = ex_model and env = ex_env
      and d = "\<lparr>LQ = ones 1 3, GT = None\<rparr>" and s' = "snd (test ex_env ex_model)"
      and cfg = ex_opt and ?s0.0 = ex_model
      and cs = "[FeedData \<lparr>LQ = ones 1 3, GT = Some (ones 1 3)\<rparr> True]"]
  note th2 = test_needs_ground_truth [where s = ex_fed and env = ex_env
      and d = "\<lparr>LQ = ones 1 3, GT = None\<rparr>" and s' = "snd (test ex_env ex_fed)"
      and cfg = ex_opt and ?s0.0 = ex_model
      and cs = "[FeedData \<lparr>LQ = ones 1 3, GT = Some (ones 1 3)\<rparr> True]"]
  from th th2 run fed ex_unset ex_init show ?thesis
    by blast
qed

text \<open>
  After a \<^verbatim>\<open>feed_data\<close> with the ground truth, a second \<^verbatim>\<open>feed_data\<close> with
  \<^verbatim>\<open>need_GT=False\<close> leaves \<^verbatim>\<open>real_H\<close> as it was, and \<^verbatim>\<open>test()\<close> then returns.
\<close>

theorem test_runs_on_stale_ground_truth:
  "real_H ex_fed = Some (ones 1 3) \<and>
   feed_data \<lparr>LQ = ones 1 3, GT = None\<rparr> False ex_fed = (Inr (), ex_refed) \<and>
   real_H ex_refed = Some (ones 1 3) \<and> fst (test ex_env ex_refed) = Inr ()"
  by (rule ex_refed_run)

section \<open>The latent noise\<close>

lemma dims_randn:
  "batch (randn src k n c h w) = n" "chans (randn src k n c h w) = c"
  "rows (randn src k n c h w) = h" "cols (randn src k n c h w) = w"
  by (simp_all add: randn_def)

lemma wf_randn: "wf_tensor (randn src k n c h w)"
  by (auto simp: wf_tensor_def randn_def)

lemma noise_batch_sample:
  assumes "noise_batch env (n, c, h, w) s = (Inr z, s1)"
  shows "z = randn (samples env) (rng s) (nat n) (nat c) (nat h) (nat w) \<and>
         shape z = (n, c, h, w) \<and> wf_tensor z \<and>
         s1 = s\<lparr>rng := rng s + nat n * nat c * nat h * nat w,
                events := events s @ [Randn (n, c, h, w)]\<rparr>"
  using assms by (simp add: noise_batch_Inr wf_randn shape_def dims_randn)

lemma test_scaled_noise:
  assumes "test env s = (Inr (), s')"
  shows "\<exists>L fl d s1 c z z2 y yf inp ns.
     ns = (case test_opt s of None \<Rightarrow> 1
           | Some t \<Rightarrow> (case noise_scale t of None \<Rightarrow> 1 | Some v \<Rightarrow> if v = 0 then 1 else v)) \<and>
     var_L s = Some L \<and> forw_L s' = Some fl \<and>
     test_input env L s = (Inr d, s1) \<and>
     c = d * (opt_scale (opt s))\<^sup>2 - int (chans L) \<and>
     z = randn (samples env) (rng s1) (batch L) (nat c) (rows L) (cols L) \<and>
     z2 = randn (samples env) (rng s1 + batch L * nat c * rows L * cols L)
            (batch L) (nat c) (rows L) (cols L) \<and>
     torch_cat L (smul ns z) = Inr y \<and>
     cells y = map (\<lambda>(u, v). u @ map (map (map (\<lambda>x. ns * x))) v) (zip (cells L) (cells z)) \<and>
     torch_cat fl (smul ns z2) = Inr yf \<and>
     cells yf = map (\<lambda>(u, v). u @ map (map (map (\<lambda>x. ns * x))) v) (zip (cells fl) (cells z2)) \<and>
     events s' = events s1 @
       [Randn (int (batch L), c, int (rows L), int (cols L)),
        NetCall (netG s) True False False y,
        NetCall (netG s) False False False inp,
        Randn (int (batch L), c, int (rows L), int (cols L)),
        NetCall (netG s) True False False yf]"
proof -
  have ns: "test_noise_scale (test_opt s) =
      (case test_opt s of None \<Rightarrow> 1
       | Some t \<Rightarrow> (case noise_scale t of None \<Rightarrow> 1 | Some v \<Rightarrow> if v = 0 then 1 else v))"
    by (simp add: test_noise_scale_def split: option.splits)
  from test_Inr [OF assms] obtain L d s1 c z y inp o2 z2 yf where
    L: "var_L s = Some L" and
    ti: "test_input env L s = (Inr d, s1)" and
    c: "c = d * (opt_scale (opt s))\<^sup>2 - int (chans L)" and
    z: "z = randn (samples env) (rng s1) (batch L) (nat c) (rows L) (cols L)" and
    y: "torch_cat L (smul (test_noise_scale (test_opt s)) z) = Inr y" and
    z2: "z2 = randn (samples env) (rng s1 + batch L * nat c * rows L * cols L)
            (batch L) (nat c) (rows L) (cols L)" and
    yf: "torch_cat (narrow_to 3 o2) (smul (test_noise_scale (test_opt s)) z2) = Inr yf" and
    ev: "events s' = events s1 @
       [Randn (int (batch L), c, int (rows L), int (cols L)),
        NetCall (netG s) True False False y,
        NetCall (netG s) False False False inp,
        Randn (int (batch L), c, int (rows L), int (cols L)),
        NetCall (netG s) True False False yf]" and
    fl: "forw_L s' = Some (narrow_to 3 o2)"
    by (elim exE conjE) (rule that)
  note cy = cells_cat_smul [OF y, THEN conjunct2]
  note cyf = cells_cat_smul [OF yf, THEN conjunct2]
  show ?thesis
    apply (intro exI conjI)
               apply (rule refl)
              apply (rule L)
             apply (rule fl)
            apply (rule ti)
           apply (rule c)
          apply (rule z)
         apply (rule z2)
        apply (rule y [unfolded ns])
       apply (rule cy [unfolded ns])
      apply (rule yf [unfolded ns])
     apply (rule cyf [unfolded ns])
    apply (rule ev)
    done
qed

lemma ex_x2_run:
  "test_opt ex_fed_x2 = Some \<lparr>noise_scale = Some 0\<rparr> \<and>
   var_L ex_fed_x2 = Some (ones 1 1) \<and>
   fst (test ex_env ex_fed_x2) = Inr () \<and>
   NetCall (DataParallel ()) True False False (ones 1 4)
     \<in> set (events (snd (test ex_env ex_fed_x2))) \<and>
   fake_H (snd (test ex_env ex_fed_x2)) = Some (ones 1 3) \<and>
   torch_cat (ones 1 1) (smul 0 (randn (samples ex_env) 0 1 3 1 1)) =
     Inr \<lparr>batch = 1, chans = 4, rows = 1, cols = 1, cells = [[[[1]], [[0]], [[0]], [[0]]]]\<rparr>"
  by (simp add: ex_defs model_defs prog_defs Let_def eval_nat_numeral)

text \<open>
  C5, as the code has it. The latent noise comes from \<^verbatim>\<open>noise_batch\<close> alone, and
  \<^verbatim>\<open>noise_batch\<close> is one call of \<^verbatim>\<open>torch.randn\<close>, the standard-normal sampler: the tensor
  it returns is well formed, has exactly the requested shape, and holds the next samples
  of the generator, whatever the options and the state of the object are. In a \<^verbatim>\<open>test()\<close>
  call that returns, two such tensors of the shape \<^verbatim>\<open>zshape\<close> are drawn one after the
  other, and the inputs of the two reverse passes are \<^verbatim>\<open>var_L\<close> (respectively \<^verbatim>\<open>forw_L\<close>)
  followed by the noise with every entry multiplied by a factor: \<^verbatim>\<open>test_opt['noise_scale']\<close>
  when \<^verbatim>\<open>test_opt\<close> is present and that entry is a number other than 0, and 1 otherwise.
\<close>

theorem test_noise_scale_factor:
  "(noise_batch env (n, c, h, w) s = (Inr z, s1) \<longrightarrow>
      z = randn (samples env) (rng s) (nat n) (nat c) (nat h) (nat w) \<and>
      shape z = (n, c, h, w) \<and> wf_tensor z \<and>
      s1 = s\<lparr>rng := rng s + nat n * nat c * nat h * nat w,
             events := events s @ [Randn (n, c, h, w)]\<rparr>) \<and>
   (test env s = (Inr (), s') \<longrightarrow>
      (\<exists>L fl d s1 c z z2 y yf inp ns.
         ns = (case test_opt s of None \<Rightarrow> 1
               | Some t \<Rightarrow>
                   (case noise_scale t of None \<Rightarrow> 1 | Some v \<Rightarrow> if v = 0 then 1 else v)) \<and>
         var_L s = Some L \<and> forw_L s' = Some fl \<and>
         test_input env L s = (Inr d, s1) \<and>
         c = d * (opt_scale (opt s))\<^sup>2 - int (chans L) \<and>
         z = randn (samples env) (rng s1) (batch L) (nat c) (rows L) (cols L) \<and>
         z2 = randn (samples env) (rng s1 + batch L * nat c * rows L * cols L)
                (batch L) (nat c) (rows L) (cols L) \<and>
         torch_cat L (smul ns z) = Inr y \<and>
         cells y =
           map (\<lambda>(u, v). u @ map (map (map (\<lambda>x. ns * x))) v) (zip (cells L) (cells z)) \<and>
         torch_cat fl (smul ns z2) = Inr yf \<and>
         cells yf =
           map (\<lambda>(u, v). u @ map (map (map (\<lambda>x. ns * x))) v) (zip (cells fl) (cells z2)) \<and>
         events s' = events s1 @
           [Randn (int (batch L), c, int (rows L), int (cols L)),
            NetCall (netG s) True False False y,
            NetCall (netG s) False False False inp,
            Randn (int (batch L), c, int (rows L), int (cols L)),
            NetCall (netG s) True False False yf]))"
proof (intro conjI impI)
  assume "noise_batch env (n, c, h, w) s = (Inr z, s1)"
  from noise_batch_sample [OF this]
  show "z = randn (samples env) (rng s) (nat n) (nat c) (nat h) (nat w)"
    and "shape z = (n, c, h, w)" and "wf_tensor z"
    and "s1 = s\<lparr>rng := rng s + nat n * nat c * nat h * nat w,
                 events := events s @ [Randn (n, c, h, w)]\<rparr>"
    by blast+
next
  assume "test env s = (Inr (), s')"
  then show "\<exists>L fl d s1 c z z2 y yf inp ns.
         ns = (case test_opt s of None \<Rightarrow> 1
               | Some t \<Rightarrow>
                   (case noise_scale t of None \<Rightarrow> 1 | Some v \<Rightarrow> if v = 0 then 1 else v)) \<and>
         var_L s = Some L \<and> forw_L s' = Some fl \<and>
         test_input env L s = (Inr d, s1) \<and>
         c = d * (opt_scale (opt s))\<^sup>2 - int (chans L) \<and>
         z = randn (samples env) (rng s1) (batch L) (nat c) (rows L) (cols L) \<and>
         z2 = randn (samples env) (rng s1 + batch L * nat c * rows L * cols L)
                (batch L) (nat c) (rows L) (cols L) \<and>
         torch_cat L (smul ns z) = Inr y \<and>
         cells y =
           map (\<lambda>(u, v). u @ map (map (map (\<lambda>x. ns * x))) v) (zip (cells L) (cells z)) \<and>
         torch_cat fl (smul ns z2) = Inr yf \<and>
         cells yf =
           map (\<lambda>(u, v). u @ map (map (map (\<lambda>x. ns * x))) v) (zip (cells fl) (cells z2)) \<and>
         events s' = events s1 @
           [Randn (int (batch L), c, int (rows L), int (cols L)),
            NetCall (netG s) True False False y,
            NetCall (netG s) False False False inp,
            Randn (int (batch L), c, int (rows L), int (cols L)),
            NetCall (netG s) True False False yf]"
    by (rule test_scaled_noise)
qed

text \<open>
  In the second configuration \<^verbatim>\<open>noise_scale\<close> is 3 and the noise has one channel: the
  samples 2 and 3 enter the two reverse passes as 6 and 9.
\<close>

theorem test_noise_scale_factor_witness:
  "noise_batch (ex_rot_env 4) (1, 2, 1, 1) ex_fed_pad =
     (Inr (pixel [1, 2]), snd (noise_batch (ex_rot_env 4) (1, 2, 1, 1) ex_fed_pad)) \<and>
   shape (pixel [1, 2]) = (1, 2, 1, 1) \<and> wf_tensor (pixel [1, 2]) \<and>
   events (snd (noise_batch (ex_rot_env 4) (1, 2, 1, 1) ex_fed_pad)) =
     events ex_fed_pad @ [Randn (1, 2, 1, 1)] \<and>
   test (ex_rot_env 4) ex_fed_pad = (Inr (), snd (test (ex_rot_env 4) ex_fed_pad)) \<and>
   (\<exists>L fl d s1 c z z2 y yf inp ns.
      ns = (case test_opt ex_fed_pad of None \<Rightarrow> 1
            | Some t \<Rightarrow>
                (case noise_scale t of None \<Rightarrow> 1 | Some v \<Rightarrow> if v = 0 then 1 else v)) \<and>
      var_L ex_fed_pad = Some L \<and> forw_L (snd (test (ex_rot_env 4) ex_fed_pad)) = Some fl \<and>
      test_input (ex_rot_env 4) L ex_fed_pad = (Inr d, s1) \<and>
      c = d * (opt_scale (opt ex_fed_pad))\<^sup>2 - int (chans L) \<and>
      z = randn (samples (ex_rot_env 4)) (rng s1) (batch L) (nat c) (rows L) (cols L) \<and>
      z2 = randn (samples (ex_rot_env 4)) (rng s1 + batch L * nat c * rows L * cols L)
             (batch L) (nat c) (rows L) (cols L) \<and>
      torch_cat L (smul ns z) = Inr y \<and>
      cells y =
        map (\<lambda>(u, v). u @ map (map (map (\<lambda>x. ns * x))) v) (zip (cells L) (cells z)) \<and>
      torch_cat fl (smul ns z2) = Inr yf \<and>
      cells yf =
        map (\<lambda>(u, v). u @ map (map (map (\<lambda>x. ns * x))) v) (zip (cells fl) (cells z2)) \<and>
      events (snd (test (ex_rot_env 4) ex_fed_pad)) = events s1 @
        [Randn (int (batch L), c, int (rows L), int (cols L)),
         NetCall (netG ex_fed_pad) True False False y,
         NetCall (netG ex_fed_pad) False False False inp,
         Randn (int (batch L), c, int (rows L), int (cols L)),
         NetCall (netG ex_fed_pad) True False False yf]) \<and>
   test_opt ex_fed_pad = Some \<lparr>noise_scale = Some 3\<rparr> \<and>
   var_L ex_fed_pad = Some (pixel [4, 5, 6]) \<and>
   forw_L (snd (test (ex_rot_env 4) ex_fed_pad)) = Some (pixel [8, 9, 1]) \<and>
   randn (samples (ex_rot_env 4)) 1 1 1 1 1 = pixel [2] \<and>
   randn (samples (ex_rot_env 4)) 2 1 1 1 1 = pixel [3] \<and>
   events (snd (test (ex_rot_env 4) ex_fed_pad)) =
     [LogInfo, LogInfo, Randn (1, 1, 1, 1), Randn (1, 1, 1, 1),
      NetCall (DataParallel ()) True False False (pixel [4, 5, 6, 6]),
      NetCall (DataParallel ()) False False False (pixel [7, 8, 9, 1]),
      Randn (1, 1, 1, 1),
      NetCall (DataParallel ()) True False False (pixel [8, 9, 1, 9])]"
proof -
  have nb: "noise_batch (ex_rot_env 4) (1, 2, 1, 1) ex_fed_pad =
     (Inr (pixel [1, 2]), snd (noise_batch (ex_rot_env 4) (1, 2, 1, 1) ex_fed_pad))"
    by (rule pair_fst_snd)
      (simp add: ex_rot_defs model_defs prog_defs Let_def eval_nat_numeral)
  note th = test_noise_scale_factor [where env = "ex_rot_env 4" and n = 1 and c = 2 and h = 1
      and w = 1 and s = ex_fed_pad
      and ?s1.0 = "snd (noise_batch (ex_rot_env 4) (1, 2, 1, 1) ex_fed_pad)"
      and z = "pixel [1, 2]" and s' = "snd (test (ex_rot_env 4) ex_fed_pad)"]
  note a = th [THEN conjunct1, THEN mp, OF nb, THEN conjunct2]
  note b = th [THEN conjunct2, THEN mp, OF ex_pad_test_run]
  have ev: "events (snd (noise_batch (ex_rot_env 4) (1, 2, 1, 1) ex_fed_pad)) =
     events ex_fed_pad @ [Randn (1, 2, 1, 1)]"
    using a [THEN conjunct2, THEN conjunct2] by simp
  from nb a ev ex_pad_test_run b ex_pad_test ex_pad_noise show ?thesis
    by (intro conjI) (erule conjunct1 | (elim conjE, assumption))+
qed

text \<open>
  With \<^verbatim>\<open>noise_scale: 0\<close> configured the noise is multiplied by 1: the reverse pass gets
  \<^verbatim>\<open>var_L\<close> followed by the unscaled samples, not by zeros.
\<close>

theorem test_ignores_zero_noise_scale:
  "test_opt ex_fed_x2 = Some \<lparr>noise_scale = Some 0\<rparr> \<and>
   var_L ex_fed_x2 = Some (ones 1 1) \<and>
   fst (test ex_env ex_fed_x2) = Inr () \<and>
   NetCall (DataParallel ()) True False False (ones 1 4)
     \<in> set (events (snd (test ex_env ex_fed_x2))) \<and>
   fake_H (snd (test ex_env ex_fed_x2)) = Some (ones 1 3) \<and>
   torch_cat (ones 1 1) (smul 0 (randn (samples ex_env) 0 1 3 1 1)) =
     Inr \<lparr>batch = 1, chans = 4, rows = 1, cols = 1, cells = [[[[1]], [[0]], [[0]], [[0]]]]\<rparr>"
  by (rule ex_x2_run)

section \<open>The training step\<close>

lemma case_Inr_iff:
  "(case v of None \<Rightarrow> Inl e | Some x \<Rightarrow> Inr x) = Inr y \<longleftrightarrow> v = Some y"
  by (cases v) simp_all

lemma loss_forward_Inr:
  assumes "loss_forward env out y s = (Inr (a, b), s')"
  shows "\<exists>t crit fit nz. train_opt s = Some t \<and> Reconstruction_forw s = Some crit \<and>
        ReconstructionLoss env crit (narrow_to 3 out) (narrow_to 3 y) = Some fit \<and>
        sum_norms (narrow_from 3 out) = Inr nz \<and>
        a = lambda_fit_forw t * fit \<and> b = lambda_mle_forw t * nz \<and> s' = s"
  using assms
  by (simp add: loss_forward_def Let_def Inr_simps case_Inr_iff)

lemma loss_backward_Inr:
  assumes "loss_backward env x y s = (Inr (a, b), s')"
  shows "\<exists>xs t crit rec.
        net_apply env (netG s) (events s) (training s) True y = Some xs \<and>
        train_opt s = Some t \<and> Reconstruction_back s = Some crit \<and>
        ReconstructionLoss env crit x (narrow_to 3 xs) = Some rec \<and>
        a = lambda_rec_back t * rec \<and>
        (if truthy_int (padding_x t)
         then \<exists>nx. sum_norms (narrow_from 3 xs) = Inr nx \<and> b = lambda_mle_back t * nx
         else b = 0) \<and>
        s' = s\<lparr>events := events s @
                 [NetCall (netG s) True (training s) (grad_enabled s) y]\<rparr>"
  using assms
  apply (simp add: loss_backward_def Let_def Inr_simps case_Inr_iff)
  apply (elim exE conjE)
  apply (simp split: if_splits add: Inr_simps)
   apply blast+
  done

lemma build_input_Inr:
  assumes "(case padding_x t of Some p \<Rightarrow> if p \<noteq> 0 then pad_input env p else plain_input
            | None \<Rightarrow> plain_input) s = (Inr u, s1)"
  shows "\<exists>H inp pre k pd. real_H s = Some H \<and>
     s1 = s\<lparr>padding_x_dim := pd, rng := k, events := events s @ pre,
            self_input := Some inp\<rparr> \<and>
     (if truthy_int (padding_x t)
      then \<exists>p. padding_x t = Some p \<and> 0 \<le> p \<and> pd = Some p \<and>
             k = rng s + batch H * nat p * rows H * cols H \<and>
             pre = [Randn (int (batch H), p, int (rows H), int (cols H))] \<and>
             torch_cat H (randn (samples env) (rng s) (batch H) (nat p) (rows H) (cols H))
               = Inr inp
      else pd = padding_x_dim s \<and> k = rng s \<and> pre = [] \<and> inp = H)"
proof (cases "truthy_int (padding_x t)")
  case True
  then obtain p where p: "padding_x t = Some p" "p \<noteq> 0"
    by (auto simp: truthy_int_def split: option.splits)
  with assms have "pad_input env p s = (Inr u, s1)"
    by simp
  then obtain H inp where
    "real_H s = Some H" "0 \<le> p"
    "torch_cat H (randn (samples env) (rng s) (batch H) (nat p) (rows H) (cols H)) = Inr inp"
    "s1 = s\<lparr>padding_x_dim := Some p,
            rng := rng s + batch H * nat p * rows H * cols H,
            events := events s @ [Randn (int (batch H), p, int (rows H), int (cols H))],
            self_input := Some inp\<rparr>"
    by (auto simp: pad_input_def Inr_simps)
  with True p show ?thesis
    by (intro exI conjI) (assumption, assumption, simp)
next
  case False
  with assms have "plain_input s = (Inr u, s1)"
    by (auto simp: truthy_int_def split: option.splits if_splits)
  then obtain H where "real_H s = Some H" "s1 = s\<lparr>self_input := Some H\<rparr>"
    by (auto simp: plain_input_def Inr_simps)
  then have "real_H s = Some H \<and>
     s1 = s\<lparr>padding_x_dim := padding_x_dim s, rng := rng s, events := events s @ [],
            self_input := Some H\<rparr>"
    by simp
  with False show ?thesis
    by (intro exI conjI) (erule conjunct1, erule conjunct2, simp)
qed

lemma learned_y_Inr:
  assumes "(if b then bnd (noise_batch env (shape (narrow_from 3 out)))
                 (\<lambda>z'. lift (torch_cat (narrow_to 3 out) z'))
            else ret y) s = (Inr yy, s1)"
  shows "\<exists>mid k. s1 = s\<lparr>rng := k, events := events s @ mid\<rparr> \<and>
     (if b then mid = [Randn (shape (narrow_from 3 out))] \<and>
                k = rng s + batch out * (chans out - 3) * rows out * cols out \<and>
                torch_cat (narrow_to 3 out)
                  (randn (samples env) (rng s) (batch out) (chans out - 3) (rows out) (cols out))
                  = Inr yy
      else mid = [] \<and> k = rng s \<and> yy = y)"
proof (cases b)
  case True
  with assms show ?thesis
    by (simp add: Inr_simps shape_def narrow_from_def)
next
  case False
  with assms have "yy = y" "s1 = s\<lparr>rng := rng s, events := events s @ []\<rparr>"
    by (simp_all add: Inr_simps)
  with False show ?thesis
    by (intro exI conjI) (assumption, simp)
qed

lemma noise_zshape_Inr:
  assumes "noise_batch env (shape (narrow_from 3 out)) s = (Inr z, s1)"
  shows "z = randn (samples env) (rng s) (batch out) (chans out - 3) (rows out) (cols out) \<and>
     s1 = s\<lparr>rng := rng s + batch out * (chans out - 3) * rows out * cols out,
            events := events s @ [Randn (shape (narrow_from 3 out))]\<rparr>"
  using assms by (auto simp: Inr_simps shape_def narrow_from_def)

lemma loss_forward_state: "loss_forward env out y s = (Inr p, s') \<Longrightarrow> s' = s"
  by (cases p) (auto dest: loss_forward_Inr)

lemma loss_backward_state:
  "loss_backward env x y s = (Inr p, s') \<Longrightarrow>
   s' = s\<lparr>events := events s @ [NetCall (netG s) True (training s) (grad_enabled s) y]\<rparr>"
  by (cases p) (auto dest: loss_backward_Inr)

lemma clip_Inr:
  assumes "(case g of None \<Rightarrow> ret ()
            | Some v \<Rightarrow> if v \<noteq> 0 then emit (ClipGradNorm v) else ret ()) s = (Inr u, s1)"
  shows "s1 = s\<lparr>events := events s @
            (case g of None \<Rightarrow> [] | Some v \<Rightarrow> if v = 0 then [] else [ClipGradNorm v])\<rparr>"
  using assms by (auto simp: Inr_simps split: option.splits if_splits)

text \<open>
  What a call of \<^verbatim>\<open>optimize_parameters\<close> that returns has done: every intermediate value
  and the final state, in terms of the state before the call.
\<close>

lemma optimize_parameters_Inr:
  assumes "optimize_parameters env step s = (Inr (), s')"
  shows "\<exists>t H L pd pre inp out k1 z y mid yy k2 ff fm br bm s2.
     train_opt s = Some t \<and> real_H s = Some H \<and> var_L s = Some L \<and>
     (if truthy_int (padding_x t)
      then \<exists>p. padding_x t = Some p \<and> 0 \<le> p \<and> pd = Some p \<and>
             k1 = rng s + batch H * nat p * rows H * cols H \<and>
             pre = [Randn (int (batch H), p, int (rows H), int (cols H))] \<and>
             torch_cat H (randn (samples env) (rng s) (batch H) (nat p) (rows H) (cols H))
               = Inr inp
      else pd = padding_x_dim s \<and> k1 = rng s \<and> pre = [] \<and> inp = H) \<and>
     net_apply env (netG s) (events s @ [ZeroGrad] @ pre) (training s) False inp = Some out \<and>
     z = randn (samples env) k1 (batch out) (chans out - 3) (rows out) (cols out) \<and>
     torch_cat L z = Inr y \<and>
     (if use_learned_y t
      then mid = [Randn (shape (narrow_from 3 out))] \<and>
           k2 = k1 + batch out * (chans out - 3) * rows out * cols out
                   + batch out * (chans out - 3) * rows out * cols out \<and>
           torch_cat (narrow_to 3 out)
             (randn (samples env) (k1 + batch out * (chans out - 3) * rows out * cols out)
                (batch out) (chans out - 3) (rows out) (cols out))
             = Inr yy
      else mid = [] \<and> k2 = k1 + batch out * (chans out - 3) * rows out * cols out \<and> yy = y) \<and>
     s2 = s\<lparr>padding_x_dim := pd, self_input := Some inp, self_output := Some out, rng := k2,
            events := events s @ [ZeroGrad] @ pre @
              [NetCall (netG s) False (training s) (grad_enabled s) inp,
               Randn (shape (narrow_from 3 out))] @ mid\<rparr> \<and>
     loss_forward env out y s2 = (Inr (ff, fm), s2) \<and>
     loss_backward env H yy s2 =
       (Inr (br, bm),
        s2\<lparr>events := events s2 @ [NetCall (netG s) True (training s) (grad_enabled s) yy]\<rparr>) \<and>
     s' = s2\<lparr>events := events s2 @
            [NetCall (netG s) True (training s) (grad_enabled s) yy,
             Backward (ff + br + fm + bm)] @
            (case gradient_clipping t of None \<Rightarrow> []
             | Some g \<Rightarrow> if g = 0 then [] else [ClipGradNorm g]) @ [OptimizerStep]\<rparr>"
proof -
  from assms obtain og t s1 inp out L z s1a y yy s2 ff fm s2c H br bm s3 s4 where
    t: "train_opt s = Some t" and
    bi: "(case padding_x t of None \<Rightarrow> plain_input
          | Some p \<Rightarrow> if p \<noteq> 0 then pad_input env p else plain_input)
          (s\<lparr>events := events s @ [ZeroGrad]\<rparr>) = (Inr (), s1)" and
    si: "self_input s1 = Some inp" and
    na: "net_apply env (netG s1) (events s1) (training s1) False inp = Some out" and
    vl: "var_L s1 = Some L" and
    nb: "noise_batch env (shape (narrow_from 3 out))
          (s1\<lparr>events := events s1 @
                 [NetCall (netG s1) False (training s1) (grad_enabled s1) inp],
               self_output := Some out\<rparr>) = (Inr z, s1a)" and
    cat: "torch_cat L z = Inr y" and
    ly: "(if use_learned_y t
          then bnd (noise_batch env (shape (narrow_from 3 out)))
                 (\<lambda>z'. lift (torch_cat (narrow_to 3 out) z'))
          else ret y) s1a = (Inr yy, s2)" and
    lf: "loss_forward env out y s2 = (Inr (ff, fm), s2c)" and
    rh: "real_H s2c = Some H" and
    lb: "loss_backward env H yy s2c = (Inr (br, bm), s3)" and
    cl: "(case gradient_clipping t of None \<Rightarrow> ret ()
          | Some g \<Rightarrow> if g \<noteq> 0 then emit (ClipGradNorm g) else ret ())
          (s3\<lparr>events := events s3 @ [Backward (ff + br + fm + bm)]\<rparr>) = (Inr (), s4)" and
    fin: "s' = s4\<lparr>events := events s4 @ [OptimizerStep]\<rparr>"
    apply (simp add: optimize_parameters_def Let_def bnd_Inr attr_Inr emit_Inr train_cfg_Inr
        modify_Inr call_net_Inr lift_Inr)
    apply (elim exE conjE)
    apply (rule that; assumption)
    done
  let ?s0 = "s\<lparr>events := events s @ [ZeroGrad]\<rparr>"
  let ?n = "batch out * (chans out - 3) * rows out * cols out"
  from build_input_Inr [OF bi] obtain H0 inp0 pre k0 pd where
    h0': "real_H ?s0 = Some H0" and
    s1': "s1 = ?s0\<lparr>padding_x_dim := pd, rng := k0, events := events ?s0 @ pre,
                 self_input := Some inp0\<rparr>" and
    pad0': "if truthy_int (padding_x t)
      then \<exists>p. padding_x t = Some p \<and> 0 \<le> p \<and> pd = Some p \<and>
             k0 = rng ?s0 + batch H0 * nat p * rows H0 * cols H0 \<and>
             pre = [Randn (int (batch H0), p, int (rows H0), int (cols H0))] \<and>
             torch_cat H0 (randn (samples env) (rng ?s0) (batch H0) (nat p) (rows H0) (cols H0))
               = Inr inp0
      else pd = padding_x_dim ?s0 \<and> k0 = rng ?s0 \<and> pre = [] \<and> inp0 = H0"
    by blast
  from h0' have h0: "real_H s = Some H0"
    by simp
  from s1' have s1: "s1 = s\<lparr>padding_x_dim := pd, rng := k0,
      events := events s @ [ZeroGrad] @ pre, self_input := Some inp0\<rparr>"
    by simp
  from pad0' have pad0: "if truthy_int (padding_x t)
      then \<exists>p. padding_x t = Some p \<and> 0 \<le> p \<and> pd = Some p \<and>
             k0 = rng s + batch H0 * nat p * rows H0 * cols H0 \<and>
             pre = [Randn (int (batch H0), p, int (rows H0), int (cols H0))] \<and>
             torch_cat H0 (randn (samples env) (rng s) (batch H0) (nat p) (rows H0) (cols H0))
               = Inr inp0
      else pd = padding_x_dim s \<and> k0 = rng s \<and> pre = [] \<and> inp0 = H0"
    by (simp cong: if_cong)
  from si s1 have inp0: "inp0 = inp"
    by simp
  let ?sa = "s1\<lparr>events := events s1 @
                 [NetCall (netG s1) False (training s1) (grad_enabled s1) inp],
               self_output := Some out\<rparr>"
  from noise_zshape_Inr [OF nb] have
    z': "z = randn (samples env) (rng ?sa) (batch out) (chans out - 3) (rows out) (cols out)"
    and s1a': "s1a = ?sa\<lparr>rng := rng ?sa + ?n,
                 events := events ?sa @ [Randn (shape (narrow_from 3 out))]\<rparr>"
    by blast+
  from z' have z: "z = randn (samples env) k0 (batch out) (chans out - 3) (rows out)
      (cols out)"
    by (simp add: s1)
  from s1a' have s1a: "s1a = s\<lparr>padding_x_dim := pd, self_input := Some inp,
      self_output := Some out, rng := k0 + ?n,
      events := events s @ [ZeroGrad] @ pre @
        [NetCall (netG s) False (training s) (grad_enabled s) inp,
         Randn (shape (narrow_from 3 out))]\<rparr>"
    by (simp add: s1 inp0)
  from learned_y_Inr [OF ly] obtain mid k2 where
    s2': "s2 = s1a\<lparr>rng := k2, events := events s1a @ mid\<rparr>" and
    mid0: "if use_learned_y t
      then mid = [Randn (shape (narrow_from 3 out))] \<and>
           k2 = rng s1a + ?n \<and>
           torch_cat (narrow_to 3 out)
             (randn (samples env) (rng s1a) (batch out) (chans out - 3) (rows out) (cols out))
             = Inr yy
      else mid = [] \<and> k2 = rng s1a \<and> yy = y"
    by blast
  have r1a: "rng s1a = k0 + ?n"
    by (simp add: s1a)
  from s2' have s2: "s2 = s\<lparr>padding_x_dim := pd, self_input := Some inp,
      self_output := Some out, rng := k2,
      events := events s @ [ZeroGrad] @ pre @
        [NetCall (netG s) False (training s) (grad_enabled s) inp,
         Randn (shape (narrow_from 3 out))] @ mid\<rparr>"
    by (simp add: s1a)
  from mid0 have c8: "if use_learned_y t
      then mid = [Randn (shape (narrow_from 3 out))] \<and>
           k2 = k0 + ?n + ?n \<and>
           torch_cat (narrow_to 3 out)
             (randn (samples env) (k0 + ?n) (batch out) (chans out - 3) (rows out) (cols out))
             = Inr yy
      else mid = [] \<and> k2 = k0 + ?n \<and> yy = y"
    unfolding r1a .
  from loss_forward_state [OF lf] have s2c: "s2c = s2" .
  have fr: "netG s2 = netG s" "training s2 = training s" "grad_enabled s2 = grad_enabled s"
    by (simp_all add: s2)
  from loss_backward_state [OF lb] have s3: "s3 = s2\<lparr>events := events s2 @
      [NetCall (netG s) True (training s) (grad_enabled s) yy]\<rparr>"
    by (simp add: s2c fr)
  from clip_Inr [OF cl] have s4: "s4 = s3\<lparr>events := events s3 @
      [Backward (ff + br + fm + bm)] @
      (case gradient_clipping t of None \<Rightarrow> []
       | Some v \<Rightarrow> if v = 0 then [] else [ClipGradNorm v])\<rparr>"
    by simp
  have c2: "real_H s = Some H"
    using rh by (simp add: s2c s2)
  then have H: "H0 = H"
    using h0 by simp
  have c3: "var_L s = Some L"
    using vl by (simp add: s1)
  have c4: "if truthy_int (padding_x t)
      then \<exists>p. padding_x t = Some p \<and> 0 \<le> p \<and> pd = Some p \<and>
             k0 = rng s + batch H * nat p * rows H * cols H \<and>
             pre = [Randn (int (batch H), p, int (rows H), int (cols H))] \<and>
             torch_cat H (randn (samples env) (rng s) (batch H) (nat p) (rows H) (cols H))
               = Inr inp
      else pd = padding_x_dim s \<and> k0 = rng s \<and> pre = [] \<and> inp = H"
    using pad0 unfolding inp0 H .
  have c5: "net_apply env (netG s) (events s @ [ZeroGrad] @ pre) (training s) False inp
      = Some out"
    using na by (simp add: s1)
  have c9: "loss_forward env out y s2 = (Inr (ff, fm), s2)"
    using lf by (simp add: s2c)
  have c10: "loss_backward env H yy s2 =
      (Inr (br, bm),
       s2\<lparr>events := events s2 @ [NetCall (netG s) True (training s) (grad_enabled s) yy]\<rparr>)"
    using lb by (simp add: s2c s3)
  have c11: "s' = s2\<lparr>events := events s2 @
            [NetCall (netG s) True (training s) (grad_enabled s) yy,
             Backward (ff + br + fm + bm)] @
            (case gradient_clipping t of None \<Rightarrow> []
             | Some g \<Rightarrow> if g = 0 then [] else [ClipGradNorm g]) @ [OptimizerStep]\<rparr>"
    by (simp add: fin s4 s3)
  show ?thesis
    apply (intro exI conjI)
              apply (rule t)
             apply (rule c2)
            apply (rule c3)
           apply (rule c4)
          apply (rule c5)
         apply (rule z)
        apply (rule cat)
       apply (rule c8)
      apply (rule s2)
     apply (rule c9)
    apply (rule c10)
    apply (rule c11)
    done
qed



lemma ex_clip0_run:
  "train_opt ex_fed_clip0 = Some (ex_train\<lparr>gradient_clipping := Some 0\<rparr>) \<and>
   fst (optimize_parameters ex_env 1 ex_fed_clip0) = Inr () \<and>
   events (snd (optimize_parameters ex_env 1 ex_fed_clip0)) =
     [LogInfo, LogInfo, ZeroGrad,
      NetCall (DataParallel ()) False True True (ones 1 3),
      Randn (1, 0, 1, 1),
      NetCall (DataParallel ()) True True True (ones 1 3),
      Backward 0, OptimizerStep]"
  by (simp add: ex_defs model_defs prog_defs Let_def eval_nat_numeral)




lemma ex_pad_step:
  "fst (optimize_parameters (ex_rot_env 4) 1 ex_fed_pad) = Inr () \<and>
   train_opt ex_fed_pad = Some ex_train_pad \<and>
   var_L ex_fed_pad = Some (pixel [4, 5, 6]) \<and>
   real_H ex_fed_pad = Some (pixel [7, 8, 9]) \<and>
   netG ex_fed_pad = DataParallel () \<and>
   events (snd (optimize_parameters (ex_rot_env 4) 1 ex_fed_pad)) =
     [LogInfo, LogInfo, ZeroGrad, Randn (1, 1, 1, 1),
      NetCall (DataParallel ()) False True True (pixel [7, 8, 9, 1]),
      Randn (1, 1, 1, 1),
      NetCall (DataParallel ()) True True True (pixel [4, 5, 6, 2]),
      Backward 154, ClipGradNorm 10, OptimizerStep] \<and>
   self_output (snd (optimize_parameters (ex_rot_env 4) 1 ex_fed_pad)) = Some (pixel [8, 9, 1, 7]) \<and>
   fst (loss_forward (ex_rot_env 4) (pixel [8, 9, 1, 7]) (pixel [4, 5, 6, 2]) ex_fed_pad)
     = Inr (26, 21) \<and>
   fst (loss_backward (ex_rot_env 4) (pixel [7, 8, 9]) (pixel [4, 5, 6, 2]) ex_fed_pad)
     = Inr (65, 42)"
  by (simp add: ex_rot_defs model_defs prog_defs Let_def eval_nat_numeral)



lemma ex_pad_step_run:
  "optimize_parameters (ex_rot_env 4) 1 ex_fed_pad =
     (Inr (), snd (optimize_parameters (ex_rot_env 4) 1 ex_fed_pad))"
  by (rule pair_fst_snd) (rule ex_pad_step [THEN conjunct1])


text \<open>
  C2, as the code has it. A call of \<^verbatim>\<open>optimize_parameters\<close> that returns has done, in
  this order: zeroed the gradients; built the input \<open>inp\<close>, which is \<^verbatim>\<open>real_H\<close>, followed
  by \<^verbatim>\<open>padding_x\<close> noise channels when \<^verbatim>\<open>padding_x\<close> is a number other than 0; run the
  forward pass on it, which gives \<open>out\<close>; drawn the latent noise \<open>z\<close> and appended it to
  \<^verbatim>\<open>var_L\<close>, which gives \<open>y\<close>; computed the two forward loss terms \<open>ff\<close> and \<open>fm\<close> from
  \<open>out\<close> and \<open>y\<close> and, with one reverse pass on \<open>yy\<close>, the two backward loss terms \<open>br\<close> and
  \<open>bm\<close>; called \<^verbatim>\<open>backward\<close> on the sum of these four; clipped the gradients when
  \<^verbatim>\<open>gradient_clipping\<close> is a number other than 0; and taken one optimizer step. The state
  \<open>s2\<close> in which the losses are computed and the final state are given in terms of the
  state before the call.
\<close>

theorem optimize_parameters_order:
  assumes "optimize_parameters env step s = (Inr (), s')"
  shows "\<exists>t H L pd pre inp out k1 z y mid yy k2 ff fm br bm s2.
     train_opt s = Some t \<and> real_H s = Some H \<and> var_L s = Some L \<and>
     (if truthy_int (padding_x t)
      then \<exists>p. padding_x t = Some p \<and> 0 \<le> p \<and> pd = Some p \<and>
             k1 = rng s + batch H * nat p * rows H * cols H \<and>
             pre = [Randn (int (batch H), p, int (rows H), int (cols H))] \<and>
             torch_cat H (randn (samples env) (rng s) (batch H) (nat p) (rows H) (cols H))
               = Inr inp
      else pd = padding_x_dim s \<and> k1 = rng s \<and> pre = [] \<and> inp = H) \<and>
     net_apply env (netG s) (events s @ [ZeroGrad] @ pre) (training s) False inp = Some out \<and>
     z = randn (samples env) k1 (batch out) (chans out - 3) (rows out) (cols out) \<and>
     torch_cat L z = Inr y \<and>
     (if use_learned_y t
      then mid = [Randn (shape (narrow_from 3 out))] \<and>
           k2 = k1 + batch out * (chans out - 3) * rows out * cols out
                   + batch out * (chans out - 3) * rows out * cols out \<and>
           torch_cat (narrow_to 3 out)
             (randn (samples env) (k1 + batch out * (chans out - 3) * rows out * cols out)
                (batch out) (chans out - 3) (rows out) (cols out))
             = Inr yy
      else mid = [] \<and> k2 = k1 + batch out * (chans out - 3) * rows out * cols out \<and> yy = y) \<and>
     s2 = s\<lparr>padding_x_dim := pd, self_input := Some inp, self_output := Some out, rng := k2,
            events := events s @ [ZeroGrad] @ pre @
              [NetCall (netG s) False (training s) (grad_enabled s) inp,
               Randn (shape (narrow_from 3 out))] @ mid\<rparr> \<and>
     loss_forward env out y s2 = (Inr (ff, fm), s2) \<and>
     loss_backward env H yy s2 =
       (Inr (br, bm),
        s2\<lparr>events := events s2 @ [NetCall (netG s) True (training s) (grad_enabled s) yy]\<rparr>) \<and>
     s' = s2\<lparr>events := events s2 @
            [NetCall (netG s) True (training s) (grad_enabled s) yy,
             Backward (ff + br + fm + bm)] @
            (case gradient_clipping t of None \<Rightarrow> []
             | Some g \<Rightarrow> if g = 0 then [] else [ClipGradNorm g]) @ [OptimizerStep]\<rparr>"
  using assms by (rule optimize_parameters_Inr)

text \<open>
  In the second configuration: one padding channel (the sample 1) behind the ground truth
  7, 8, 9; the forward pass; the latent noise (the sample 2) behind \<^verbatim>\<open>var_L\<close>; the losses
  26 and 21 forward, 65 and 42 backward; \<^verbatim>\<open>backward\<close> on their sum 154; clipping at 10;
  the optimizer step.
\<close>

theorem optimize_parameters_order_witness:
  "optimize_parameters (ex_rot_env 4) 1 ex_fed_pad =
     (Inr (), snd (optimize_parameters (ex_rot_env 4) 1 ex_fed_pad)) \<and>
   (\<exists>t H L pd pre inp out k1 z y mid yy k2 ff fm br bm s2.
     train_opt ex_fed_pad = Some t \<and> real_H ex_fed_pad = Some H \<and> var_L ex_fed_pad = Some L \<and>
     (if truthy_int (padding_x t)
      then \<exists>p. padding_x t = Some p \<and> 0 \<le> p \<and> pd = Some p \<and>
             k1 = rng ex_fed_pad + batch H * nat p * rows H * cols H \<and>
             pre = [Randn (int (batch H), p, int (rows H), int (cols H))] \<and>
             torch_cat H (randn (samples (ex_rot_env 4)) (rng ex_fed_pad) (batch H) (nat p) (rows H) (cols H))
               = Inr inp
      else pd = padding_x_dim ex_fed_pad \<and> k1 = rng ex_fed_pad \<and> pre = [] \<and> inp = H) \<and>
     net_apply (ex_rot_env 4) (netG ex_fed_pad) (events ex_fed_pad @ [ZeroGrad] @ pre) (training ex_fed_pad) False inp = Some out \<and>
     z = randn (samples (ex_rot_env 4)) k1 (batch out) (chans out - 3) (rows out) (cols out) \<and>
     torch_cat L z = Inr y \<and>
     (if use_learned_y t
      then mid = [Randn (shape (narrow_from 3 out))] \<and>
           k2 = k1 + batch out * (chans out - 3) * rows out * cols out
                   + batch out * (chans out - 3) * rows out * cols out \<and>
           torch_cat (narrow_to 3 out)
             (randn (samples (ex_rot_env 4)) (k1 + batch out * (chans out - 3) * rows out * cols out)
                (batch out) (chans out - 3) (rows out) (cols out))
             = Inr yy
      else mid = [] \<and> k2 = k1 + batch out * (chans out - 3) * rows out * cols out \<and> yy = y) \<and>
     s2 = ex_fed_pad\<lparr>padding_x_dim := pd, self_input := Some inp, self_output := Some out, rng := k2,
            events := events ex_fed_pad @ [ZeroGrad] @ pre @
              [NetCall (netG ex_fed_pad) False (training ex_fed_pad) (grad_enabled ex_fed_pad) inp,
               Randn (shape (narrow_from 3 out))] @ mid\<rparr> \<and>
     loss_forward (ex_rot_env 4) out y s2 = (Inr (ff, fm), s2) \<and>
     loss_backward (ex_rot_env 4) H yy s2 =
       (Inr (br, bm),
        s2\<lparr>events := events s2 @ [NetCall (netG ex_fed_pad) True (training ex_fed_pad) (grad_enabled ex_fed_pad) yy]\<rparr>) \<and>
     (snd (optimize_parameters (ex_rot_env 4) 1 ex_fed_pad)) = s2\<lparr>events := events s2 @
            [NetCall (netG ex_fed_pad) True (training ex_fed_pad) (grad_enabled ex_fed_pad) yy,
             Backward (ff + br + fm + bm)] @
            (case gradient_clipping t of None \<Rightarrow> []
             | Some g \<Rightarrow> if g = 0 then [] else [ClipGradNorm g]) @ [OptimizerStep]\<rparr>) \<and>
   train_opt ex_fed_pad = Some ex_train_pad \<and>
   var_L ex_fed_pad = Some (pixel [4, 5, 6]) \<and>
   real_H ex_fed_pad = Some (pixel [7, 8, 9]) \<and>
   fst (loss_forward (ex_rot_env 4) (pixel [8, 9, 1, 7]) (pixel [4, 5, 6, 2]) ex_fed_pad)
     = Inr (26, 21) \<and>
   fst (loss_backward (ex_rot_env 4) (pixel [7, 8, 9]) (pixel [4, 5, 6, 2]) ex_fed_pad)
     = Inr (65, 42) \<and>
   events (snd (optimize_parameters (ex_rot_env 4) 1 ex_fed_pad)) =
     [LogInfo, LogInfo, ZeroGrad, Randn (1, 1, 1, 1),
      NetCall (DataParallel ()) False True True (pixel [7, 8, 9, 1]),
      Randn (1, 1, 1, 1),
      NetCall (DataParallel ()) True True True (pixel [4, 5, 6, 2]),
      Backward 154, ClipGradNorm 10, OptimizerStep]"
proof -
  note th = optimize_parameters_order [OF ex_pad_step_run]
  from th ex_pad_step_run ex_pad_step show ?thesis
    by (intro conjI) (erule conjunct1 | (elim conjE, assumption))+
qed

text \<open>
  With \<^verbatim>\<open>gradient_clipping: 0\<close> configured the gradients are not clipped: the optimizer
  step follows \<^verbatim>\<open>backward\<close> directly.
\<close>

theorem optimize_parameters_skips_zero_clipping:
  "train_opt ex_fed_clip0 = Some (ex_train\<lparr>gradient_clipping := Some 0\<rparr>) \<and>
   fst (optimize_parameters ex_env 1 ex_fed_clip0) = Inr () \<and>
   events (snd (optimize_parameters ex_env 1 ex_fed_clip0)) =
     [LogInfo, LogInfo, ZeroGrad,
      NetCall (DataParallel ()) False True True (ones 1 3),
      Randn (1, 0, 1, 1),
      NetCall (DataParallel ()) True True True (ones 1 3),
      Backward 0, OptimizerStep]"
  by (rule ex_clip0_run)

section \<open>The training loss\<close>



end
